theory Spec2Isabelle
  imports Main
begin

section \<open>JavaScript values and string primitives\<close>

text \<open>
  The source is TypeScript running in a browser. Values of type \<open>any\<close> (option bags,
  file contents, parsed JSON, what the user types) are modelled by \<open>jsval\<close>: the
  values JSON can describe, and \<open>undefined\<close>. A number is kept as the text JavaScript
  prints for it (\<open>1e+21\<close>, \<open>0.5\<close>, \<open>NaN\<close>; \<open>-0\<close> prints as \<open>0\<close>): the source
  never computes with a number, it only tests one for truth and converts one to text.
  An object or array held in a \<open>jsval\<close> is a plain one, given by its list of own
  properties and inheriting from the built-in prototype only; none of its properties
  is a function. The property names the source reads (\<open>encoding\<close>, \<open>username\<close>,
  \<open>password\<close>) are not properties of any built-in prototype, so reading them gives
  the own property or \<open>undefined\<close>. Strings are HOL strings; the path functions only
  ever distinguish the separator \<open>/\<close> from every other character.
\<close>

datatype jsval =
    JUndefined
  | JNull
  | JBool bool
  | JNum string
  | JStr string
  | JArr "jsval list"
  | JObj "(string \<times> jsval) list"

type_synonym js_object = "string \<rightharpoonup> jsval"

fun js_truthy :: "jsval \<Rightarrow> bool" where
  "js_truthy JUndefined = False"
| "js_truthy JNull = False"
| "js_truthy (JBool b) = b"
| "js_truthy (JNum n) = (n \<noteq> ''0'' \<and> n \<noteq> ''NaN'')"
| "js_truthy (JStr s) = (s \<noteq> [])"
| "js_truthy (JArr xs) = True"
| "js_truthy (JObj kvs) = True"

definition digit_char :: "nat \<Rightarrow> char" where
  "digit_char d = ''0123456789'' ! d"

fun show_nat :: "nat \<Rightarrow> string" where
  "show_nat n = (if n < 10 then [digit_char n] else show_nat (n div 10) @ [digit_char (n mod 10)])"

declare show_nat.simps [simp del]

text \<open>\<open>xs.join(sep)\<close> on an array of strings.\<close>

fun join_js :: "string \<Rightarrow> string list \<Rightarrow> string" where
  "join_js sep [] = []"
| "join_js sep [x] = x"
| "join_js sep (x # y # ys) = x @ sep @ join_js sep (y # ys)"

text \<open>\<open>s.split(sep)\<close> for a one-character separator: the empty string gives one empty piece.\<close>

fun split_js :: "char \<Rightarrow> string \<Rightarrow> string list" where
  "split_js sep [] = [[]]"
| "split_js sep (c # cs) =
     (if c = sep then [] # split_js sep cs
      else (case split_js sep cs of
              [] \<Rightarrow> [[c]]
            | x # xs \<Rightarrow> (c # x) # xs))"

text \<open>\<open>s.replace(/\/+$/, '')\<close>: the maximal run of separators at the end is removed.\<close>

definition strip_trailing :: "char \<Rightarrow> string \<Rightarrow> string" where
  "strip_trailing sep s = rev (dropWhile (\<lambda>c. c = sep) (rev s))"

definition endsWith :: "string \<Rightarrow> string \<Rightarrow> bool" where
  "endsWith s e = (length e \<le> length s \<and> drop (length s - length e) s = e)"

text \<open>
  String conversion as a template literal performs it. A plain object converts through
  the inherited \<open>toString\<close> to \<open>[object Object]\<close>, unless it has an own property named
  \<open>toString\<close>: that property is not a function, the inherited \<open>valueOf\<close> gives back
  the object, and the conversion raises a TypeError. An array joins the conversions of
  its elements, \<open>undefined\<close> and \<open>null\<close> counting as empty, and raises when one of
  them does. \<open>js_text\<close> is the text where the conversion succeeds.
\<close>

fun js_stringable :: "jsval \<Rightarrow> bool" where
  "js_stringable (JArr xs) = list_all js_stringable xs"
| "js_stringable (JObj kvs) = (''toString'' \<notin> set (map fst kvs))"
| "js_stringable v = True"

fun js_text :: "jsval \<Rightarrow> string" where
  "js_text JUndefined = ''undefined''"
| "js_text JNull = ''null''"
| "js_text (JBool b) = (if b then ''true'' else ''false'')"
| "js_text (JNum n) = n"
| "js_text (JStr s) = s"
| "js_text (JArr xs) =
     join_js '','' (map (\<lambda>x. if x = JUndefined \<or> x = JNull then [] else js_text x) xs)"
| "js_text (JObj kvs) = ''[object Object]''"

text \<open>
  The own enumerable properties an object spread \<open>{...v}\<close> copies: those of an object,
  the indexed characters of a string, the indexed elements of an array, and nothing
  for any other value (\<open>undefined\<close> and \<open>null\<close> included).
\<close>

fun own_props :: "jsval \<Rightarrow> (string \<times> jsval) list" where
  "own_props (JObj kvs) = kvs"
| "own_props (JStr s) = zip (map show_nat [0..<length s]) (map (\<lambda>c. JStr [c]) s)"
| "own_props (JArr xs) = zip (map show_nat [0..<length xs]) xs"
| "own_props v = []"

definition spread :: "jsval \<Rightarrow> js_object" where
  "spread v = map_of (own_props v)"

text \<open>
  Reading a named property \<open>v.k\<close>. On \<open>undefined\<close> and \<open>null\<close> the read raises a
  TypeError; on any other value it gives the own property or \<open>undefined\<close>.
\<close>

record js_error =
  err_name :: string
  err_message :: string
  err_code :: "string option"
  err_errno :: "int option"
  err_syscall :: "string option"
  err_path :: "string option"

datatype thrown = ThrowStr string | ThrowErr js_error

definition new_Error :: "string \<Rightarrow> js_error" where
  "new_Error msg =
     \<lparr>err_name = ''Error'', err_message = msg, err_code = None, err_errno = None,
      err_syscall = None, err_path = None\<rparr>"

definition new_TypeError :: "string \<Rightarrow> js_error" where
  "new_TypeError msg = (new_Error msg)\<lparr>err_name := ''TypeError''\<rparr>"

definition js_toString :: "jsval \<Rightarrow> thrown + string" where
  "js_toString v =
     (if js_stringable v then Inr (js_text v)
      else Inl (ThrowErr (new_TypeError ''Cannot convert object to primitive value'')))"

definition own_value :: "string \<Rightarrow> jsval \<Rightarrow> jsval" where
  "own_value k v = (case map_of (own_props v) k of None \<Rightarrow> JUndefined | Some x \<Rightarrow> x)"

definition get_prop :: "string \<Rightarrow> jsval \<Rightarrow> thrown + jsval" where
  "get_prop k v =
     (if v = JUndefined \<or> v = JNull
      then Inl (ThrowErr (new_TypeError (''Cannot read properties of '' @ js_text v)))
      else Inr (own_value k v))"

section \<open>Path algebra (\<open>pathUtils\<close>)\<close>

definition dirname :: "string \<Rightarrow> string" where
  "dirname p =
     (if p = [] \<or> CHR ''/'' \<notin> set p then ''.''
      else
        let p' = strip_trailing CHR ''/'' p;
            d = join_js ''/'' (butlast (split_js CHR ''/'' p'))
        in if d = [] then ''/'' else d)"

definition basename :: "string \<Rightarrow> string option \<Rightarrow> string" where
  "basename p ext =
     (let p' = strip_trailing CHR ''/'' p;
          base = (case rev (split_js CHR ''/'' p') of [] \<Rightarrow> [] | x # _ \<Rightarrow> x)
      in case ext of
           None \<Rightarrow> base
         | Some e \<Rightarrow>
             if e \<noteq> [] \<and> endsWith base e then take (length base - length e) base else base)"

definition normalizePathParts :: "string \<Rightarrow> string list" where
  "normalizePathParts p =
     filter (\<lambda>s. s \<noteq> []) (split_js CHR ''/'' (strip_trailing CHR ''/'' p))"

text \<open>
  The \<open>for\<close> loop of \<open>relative\<close>: \<open>i\<close> runs below \<open>minLength\<close>, the loop breaks at the
  first index where the parts differ, and \<open>commonLength\<close> counts the rounds completed.
\<close>

function commonLength_loop ::
  "string list \<Rightarrow> string list \<Rightarrow> nat \<Rightarrow> nat \<Rightarrow> nat \<Rightarrow> nat" where
  "commonLength_loop fromParts toParts minLength i commonLength =
     (if i < minLength then
        (if fromParts ! i \<noteq> toParts ! i then commonLength
         else commonLength_loop fromParts toParts minLength (i + 1) (commonLength + 1))
      else commonLength)"
  by pat_completeness auto
termination
  by (relation "measure (\<lambda>(f, t, m, i, c). m - i)") auto

declare commonLength_loop.simps [simp del]

definition relative :: "string \<Rightarrow> string \<Rightarrow> string" where
  "relative from to =
     (if from = [] \<or> to = [] then ''.''
      else
        let fromParts = normalizePathParts from;
            toParts = normalizePathParts to;
            minLength = min (length fromParts) (length toParts);
            commonLength = commonLength_loop fromParts toParts minLength 0 0;
            upCount = length fromParts - commonLength;
            remainingPath = drop commonLength toParts;
            relativeParts = replicate upCount ''..'' @ remainingPath
        in if length relativeParts = 0 then ''.'' else join_js ''/'' relativeParts)"

subsection \<open>The specification's description of \<open>relative\<close>\<close>

text \<open>
  Written from the specification's words, for comparison with the code above: the
  non-empty segments between separators, the longest common prefix of two segment
  lists, then one \<open>..\<close> per remaining segment of \<open>from\<close> followed by the remaining
  segments of \<open>to\<close>.
\<close>

fun spec_segments_from :: "string \<Rightarrow> string \<Rightarrow> string list" where
  "spec_segments_from cur [] = (if cur = [] then [] else [cur])"
| "spec_segments_from cur (c # cs) =
     (if c = CHR ''/'' then
        (if cur = [] then spec_segments_from [] cs else cur # spec_segments_from [] cs)
      else spec_segments_from (cur @ [c]) cs)"

definition spec_segments :: "string \<Rightarrow> string list" where
  "spec_segments p = spec_segments_from [] p"

fun spec_common_prefix :: "string list \<Rightarrow> string list \<Rightarrow> nat" where
  "spec_common_prefix (x # xs) (y # ys) = (if x = y then Suc (spec_common_prefix xs ys) else 0)"
| "spec_common_prefix xs ys = 0"

definition spec_relative :: "string \<Rightarrow> string \<Rightarrow> string" where
  "spec_relative from to =
     (let f = spec_segments from;
          t = spec_segments to;
          k = spec_common_prefix f t;
          out = replicate (length f - k) ''..'' @ drop k t
      in if out = [] then ''.'' else join_js ''/'' out)"

section \<open>The WebContainer filesystem and the write ledger\<close>

text \<open>
  The container's filesystem is a black box: its five operations are parameters over an
  abstract state \<open>'s\<close>, each returning a value or the error it raised. \<open>readdir\<close>
  answers with names or, when asked for file types, with directory entries.
\<close>

record dirent =
  d_name :: string
  d_isFile :: bool
  d_isDirectory :: bool

datatype listing = Names "string list" | Dirents "dirent list"

record stats =
  st_isFile :: bool
  st_isDirectory :: bool
  st_isSymbolicLink :: bool
  st_size :: nat
  st_mode :: nat
  st_mtimeMs :: int
  st_uid :: nat
  st_gid :: nat

datatype fs_value = Val jsval | Listing listing | Stats stats

text \<open>What one call of the filesystem adapter carries: the operation and its arguments.\<close>

datatype fs_call =
    ReadFile string jsval
  | WriteFile string jsval jsval
  | Mkdir string jsval
  | Readdir string jsval
  | Rm string jsval
  | Rmdir string jsval
  | Unlink string
  | Stat string
  | Lstat string
  | Readlink string
  | Symlink string string
  | Chmod string jsval

text \<open>
  The protocol engine (isomorphic-git) is a black box as well. A run of one of its entry
  points is a program that calls the filesystem adapter and the three authentication
  hooks, each time continuing with the answer, and finally resolves or rejects.
\<close>

datatype prog =
    Return "thrown + jsval"
  | FsCall fs_call "thrown + fs_value \<Rightarrow> prog"
  | OnAuth string "jsval \<Rightarrow> prog"
  | OnAuthFailure string jsval prog
  | OnAuthSuccess string jsval prog

text \<open>The engine's entry points with the arguments the source passes.\<close>

datatype invocation =
    Clone string string nat bool string "(string \<times> string) list"
      \<comment> \<open>dir, url, depth, singleBranch, corsProxy, headers\<close>
  | Push string string string string
      \<comment> \<open>dir, remote, ref, corsProxy\<close>
  | Pull string bool string "(string \<times> string) list"
      \<comment> \<open>dir, singleBranch, corsProxy, headers\<close>
  | GetConfig string string
      \<comment> \<open>dir, path\<close>

record ledger_entry =
  le_data :: jsval
  le_encoding :: jsval

datatype toast = Toast_success string | Toast_error string

text \<open>
  The state the hook \<open>useGit\<close> works on: whether the container, the adapter and the
  ready flag are set (they are set together), the write ledger \<open>fileData.current\<close>,
  the cookie store, the notices shown, the engine entry points invoked so far, and the
  container's own state. Console output is not modelled.
\<close>

record 's world =
  ready :: bool
  ledger :: "(string \<times> ledger_entry) list"
  cookies :: "string \<rightharpoonup> string"
  toasts :: "toast list"
  invoked :: "invocation list"
  container :: 's

record 's env =
  workdir :: string
  clock :: "'s \<Rightarrow> int"
  sb_readFile :: "string \<Rightarrow> jsval \<Rightarrow> 's \<Rightarrow> (thrown + jsval) \<times> 's"
  sb_writeFile :: "string \<Rightarrow> jsval \<Rightarrow> js_object \<Rightarrow> 's \<Rightarrow> (thrown + jsval) \<times> 's"
  sb_mkdir :: "string \<Rightarrow> js_object \<Rightarrow> 's \<Rightarrow> (thrown + jsval) \<times> 's"
  sb_readdir :: "string \<Rightarrow> jsval \<Rightarrow> 's \<Rightarrow> (thrown + listing) \<times> 's"
  sb_rm :: "string \<Rightarrow> js_object \<Rightarrow> 's \<Rightarrow> (thrown + jsval) \<times> 's"
  engine :: "invocation \<Rightarrow> prog"
  json_parse :: "string \<Rightarrow> thrown + jsval"
  json_stringify :: "jsval \<Rightarrow> string"
  base64 :: "string \<Rightarrow> string"
  user_confirm :: "string \<Rightarrow> bool"
  user_prompt :: "string \<Rightarrow> jsval"

text \<open>
  A plain object used as a dictionary (the ledger, the snapshot, the headers) is the list
  of its own properties in the order \<open>Object.entries\<close> enumerates them: first the keys
  that are array indices (canonical decimal numerals below \<open>2^32 - 1\<close>) in ascending
  numeric order, then every other key in the order of creation.
\<close>

definition is_digit :: "char \<Rightarrow> bool" where
  "is_digit c = (c \<in> set ''0123456789'')"

definition digit_val :: "char \<Rightarrow> nat" where
  "digit_val c = length (takeWhile (\<lambda>d. d \<noteq> c) ''0123456789'')"

definition digits_val :: "string \<Rightarrow> nat" where
  "digits_val s = foldl (\<lambda>n c. 10 * n + digit_val c) 0 s"

definition array_index :: "string \<Rightarrow> nat option" where
  "array_index k =
     (if k \<noteq> [] \<and> list_all is_digit k \<and> (k = ''0'' \<or> hd k \<noteq> CHR ''0'')
         \<and> digits_val k < 4294967295
      then Some (digits_val k) else None)"

definition key_rank :: "string \<Rightarrow> nat" where
  "key_rank k = (case array_index k of Some n \<Rightarrow> n | None \<Rightarrow> 4294967295)"

text \<open>
  Assignment \<open>obj[k] = v\<close> on such an object. The key \<open>__proto__\<close> names the accessor
  inherited from the built-in prototype: assigning to it replaces the prototype of the
  object (by the value, when that is an object) and creates no own property, so the
  list of own properties stays as it is. For any other key an existing property keeps
  its place and takes the new value, and a new property is created: an array index
  enumerates before every larger index and every other key, any other key enumerates
  last.
\<close>

fun obj_insert :: "string \<Rightarrow> 'v \<Rightarrow> (string \<times> 'v) list \<Rightarrow> (string \<times> 'v) list" where
  "obj_insert k v [] = [(k, v)]"
| "obj_insert k v ((k', v') # rest) =
     (if key_rank k < key_rank k' then (k, v) # (k', v') # rest
      else (k', v') # obj_insert k v rest)"

fun obj_replace :: "string \<Rightarrow> 'v \<Rightarrow> (string \<times> 'v) list \<Rightarrow> (string \<times> 'v) list" where
  "obj_replace k v [] = []"
| "obj_replace k v ((k', v') # rest) =
     (if k' = k then (k, v) # rest else (k', v') # obj_replace k v rest)"

definition obj_assign :: "string \<Rightarrow> 'v \<Rightarrow> (string \<times> 'v) list \<Rightarrow> (string \<times> 'v) list" where
  "obj_assign k v l =
     (if k = ''__proto__'' then l
      else if k \<in> set (map fst l) then obj_replace k v l
      else obj_insert k v l)"

text \<open>
  The lists that stand for such an object: no key twice, keys in enumeration order, and
  no own property named \<open>__proto__\<close> (an assignment never creates one).
\<close>

definition plain_object :: "(string \<times> 'v) list \<Rightarrow> bool" where
  "plain_object l =
     (distinct (map fst l) \<and> sorted (map key_rank (map fst l)) \<and> ''__proto__'' \<notin> set (map fst l))"

text \<open>Awaiting a container operation inside \<open>try { ... } catch (error) { throw error }\<close>.\<close>

definition await_sb ::
  "('s \<Rightarrow> (thrown + 'a) \<times> 's) \<Rightarrow> ('a \<Rightarrow> fs_value) \<Rightarrow> 's world \<Rightarrow> (thrown + fs_value) \<times> 's world" where
  "await_sb operation wrap w =
     (let (r, s') = operation (container w)
      in (case r of Inl e \<Rightarrow> Inl e | Inr x \<Rightarrow> Inr (wrap x), w\<lparr>container := s'\<rparr>))"

section \<open>The filesystem adapter (\<open>getFs\<close>)\<close>

definition readFile :: "'s env \<Rightarrow> string \<Rightarrow> jsval \<Rightarrow> 's world \<Rightarrow> (thrown + fs_value) \<times> 's world" where
  "readFile e p options w =
     (let encoding = (if options = JUndefined \<or> options = JNull then JUndefined
                      else own_value ''encoding'' options);
          relativePath = relative (workdir e) p
      in await_sb (sb_readFile e relativePath encoding) Val w)"

text \<open>
  \<open>writeFile\<close> reads \<open>options.encoding\<close> first (a TypeError when \<open>options\<close> is
  \<open>undefined\<close> or \<open>null\<close>), records the entry in the ledger (\<open>record.current\<close> is an
  object, hence always truthy), and only then calls the container.
\<close>

definition writeFile ::
  "'s env \<Rightarrow> string \<Rightarrow> jsval \<Rightarrow> jsval \<Rightarrow> 's world \<Rightarrow> (thrown + fs_value) \<times> 's world" where
  "writeFile e p dat options w =
     (case get_prop ''encoding'' options of
        Inl err \<Rightarrow> (Inl err, w)
      | Inr encoding \<Rightarrow>
          let relativePath = relative (workdir e) p;
              w1 = w\<lparr>ledger :=
                      obj_assign relativePath \<lparr>le_data = dat, le_encoding = encoding\<rparr> (ledger w)\<rparr>
          in await_sb
               (sb_writeFile e relativePath dat ((spread options)(''encoding'' \<mapsto> encoding)))
               Val w1)"

definition mkdir :: "'s env \<Rightarrow> string \<Rightarrow> jsval \<Rightarrow> 's world \<Rightarrow> (thrown + fs_value) \<times> 's world" where
  "mkdir e p options w =
     (let relativePath = relative (workdir e) p
      in await_sb (sb_mkdir e relativePath ((spread options)(''recursive'' \<mapsto> JBool True))) Val w)"

definition readdir :: "'s env \<Rightarrow> string \<Rightarrow> jsval \<Rightarrow> 's world \<Rightarrow> (thrown + fs_value) \<times> 's world" where
  "readdir e p options w =
     (let relativePath = relative (workdir e) p
      in await_sb (sb_readdir e relativePath options) Listing w)"

definition rm :: "'s env \<Rightarrow> string \<Rightarrow> jsval \<Rightarrow> 's world \<Rightarrow> (thrown + fs_value) \<times> 's world" where
  "rm e p options w =
     (let relativePath = relative (workdir e) p
      in await_sb
           (sb_rm e relativePath (spread (if js_truthy options then options else JObj [])))
           Val w)"

text \<open>
  \<open>rmdir\<close> passes \<open>{ recursive: true, ...options }\<close>: the properties of \<open>options\<close> are
  written after \<open>recursive\<close>, so they take precedence.
\<close>

definition rmdir_options :: "jsval \<Rightarrow> js_object" where
  "rmdir_options options = [''recursive'' \<mapsto> JBool True] ++ spread options"

definition rmdir :: "'s env \<Rightarrow> string \<Rightarrow> jsval \<Rightarrow> 's world \<Rightarrow> (thrown + fs_value) \<times> 's world" where
  "rmdir e p options w =
     (let relativePath = relative (workdir e) p
      in await_sb (sb_rm e relativePath (rmdir_options options)) Val w)"

definition unlink :: "'s env \<Rightarrow> string \<Rightarrow> 's world \<Rightarrow> (thrown + fs_value) \<times> 's world" where
  "unlink e p w =
     (let relativePath = relative (workdir e) p
      in await_sb (sb_rm e relativePath [''recursive'' \<mapsto> JBool False]) Val w)"

text \<open>
  \<open>stat\<close>: the body of the \<open>try\<close> block gives the synthesized stats or the error
  raised inside it (by the listing, or by the explicit \<open>throw\<close> when no entry has the
  name); the \<open>catch\<close> block replaces whatever was raised by the ENOENT error. An entry
  of a plain name listing has no \<open>name\<close> property and never matches.
\<close>

definition find_entry :: "string \<Rightarrow> listing \<Rightarrow> dirent option" where
  "find_entry name resp =
     (case resp of Dirents ds \<Rightarrow> find (\<lambda>x. d_name x = name) ds | Names ns \<Rightarrow> None)"

definition stat_try ::
  "'s env \<Rightarrow> string \<Rightarrow> 's world \<Rightarrow> (thrown + stats) \<times> 's world" where
  "stat_try e p w =
     (let relativePath = relative (workdir e) p;
          (resp, s') = sb_readdir e (dirname relativePath)
                         (JObj [(''withFileTypes'', JBool True)]) (container w);
          w' = w\<lparr>container := s'\<rparr>
      in case resp of
           Inl err \<Rightarrow> (Inl err, w')
         | Inr entries \<Rightarrow>
             (case find_entry (basename relativePath None) entries of
                None \<Rightarrow>
                  (Inl (ThrowErr (new_Error
                     (''ENOENT: no such file or directory, stat '' @ [CHR 0x27] @ p @ [CHR 0x27]))),
                   w')
              | Some fileInfo \<Rightarrow>
                  (Inr \<lparr>st_isFile = d_isFile fileInfo,
                        st_isDirectory = d_isDirectory fileInfo,
                        st_isSymbolicLink = False,
                        st_size = 1,
                        st_mode = 438,
                        st_mtimeMs = clock e s',
                        st_uid = 1000,
                        st_gid = 1000\<rparr>,
                   w')))"

definition stat :: "'s env \<Rightarrow> string \<Rightarrow> 's world \<Rightarrow> (thrown + fs_value) \<times> 's world" where
  "stat e p w =
     (case stat_try e p w of
        (Inr st, w') \<Rightarrow> (Inr (Stats st), w')
      | (Inl error, w') \<Rightarrow>
          (Inl (ThrowErr
             ((new_Error (''ENOENT: no such file or directory, stat '' @ [CHR 0x27] @ p @ [CHR 0x27]))
                \<lparr>err_code := Some ''ENOENT'',
                 err_errno := Some (- 2),
                 err_syscall := Some ''stat'',
                 err_path := Some p\<rparr>)),
           w'))"

definition lstat :: "'s env \<Rightarrow> string \<Rightarrow> 's world \<Rightarrow> (thrown + fs_value) \<times> 's world" where
  "lstat e p w = stat e p w"

definition readlink :: "'s env \<Rightarrow> string \<Rightarrow> 's world \<Rightarrow> (thrown + fs_value) \<times> 's world" where
  "readlink e p w =
     (Inl (ThrowErr (new_Error (''EINVAL: invalid argument, readlink '' @ [CHR 0x27] @ p @ [CHR 0x27]))),
      w)"

definition symlink ::
  "'s env \<Rightarrow> string \<Rightarrow> string \<Rightarrow> 's world \<Rightarrow> (thrown + fs_value) \<times> 's world" where
  "symlink e target p w =
     (Inl (ThrowErr (new_Error
        (''EPERM: operation not permitted, symlink '' @ [CHR 0x27] @ target @ [CHR 0x27]
           @ '' -> '' @ [CHR 0x27] @ p @ [CHR 0x27]))),
      w)"

definition chmod :: "'s env \<Rightarrow> string \<Rightarrow> jsval \<Rightarrow> 's world \<Rightarrow> (thrown + fs_value) \<times> 's world" where
  "chmod e p mode w = (Inr (Val JUndefined), w)"

fun fs_dispatch :: "'s env \<Rightarrow> fs_call \<Rightarrow> 's world \<Rightarrow> (thrown + fs_value) \<times> 's world" where
  "fs_dispatch e (ReadFile p options) w = readFile e p options w"
| "fs_dispatch e (WriteFile p dat options) w = writeFile e p dat options w"
| "fs_dispatch e (Mkdir p options) w = mkdir e p options w"
| "fs_dispatch e (Readdir p options) w = readdir e p options w"
| "fs_dispatch e (Rm p options) w = rm e p options w"
| "fs_dispatch e (Rmdir p options) w = rmdir e p options w"
| "fs_dispatch e (Unlink p) w = unlink e p w"
| "fs_dispatch e (Stat p) w = stat e p w"
| "fs_dispatch e (Lstat p) w = lstat e p w"
| "fs_dispatch e (Readlink p) w = readlink e p w"
| "fs_dispatch e (Symlink target p) w = symlink e target p w"
| "fs_dispatch e (Chmod p mode) w = chmod e p mode w"

section \<open>Credential cache and authentication hooks\<close>

text \<open>
  \<open>JSON.parse\<close>, \<open>JSON.stringify\<close>, the base64 encoder and the user answering
  \<open>confirm\<close> and \<open>prompt\<close> are parameters of the environment. \<open>url.split('/')[2]\<close>
  is \<open>undefined\<close> when the URL has fewer than three pieces; it is a string or
  \<open>undefined\<close>, so its conversion to text in a template literal cannot raise.
\<close>

definition url_domain :: "string \<Rightarrow> jsval" where
  "url_domain url =
     (let parts = split_js CHR ''/'' url
      in if 2 < length parts then JStr (parts ! 2) else JUndefined)"

definition lookupSavedPassword :: "'s env \<Rightarrow> (string \<rightharpoonup> string) \<Rightarrow> string \<Rightarrow> jsval" where
  "lookupSavedPassword e jar url =
     (let domain = url_domain url;
          gitCreds = jar (''git:'' @ js_text domain)
      in case gitCreds of
           None \<Rightarrow> JNull
         | Some creds \<Rightarrow>
             if creds = [] then JNull
             else
               (case json_parse e (if creds \<noteq> [] then creds else ''{}'') of
                  Inl error \<Rightarrow> JNull
                | Inr parsed \<Rightarrow>
                    (case get_prop ''username'' parsed of
                       Inl error \<Rightarrow> JNull
                     | Inr username \<Rightarrow>
                         (case get_prop ''password'' parsed of
                            Inl error \<Rightarrow> JNull
                          | Inr password \<Rightarrow>
                              JObj [(''username'', username), (''password'', password)]))))"

definition saveGitAuth ::
  "'s env \<Rightarrow> (string \<rightharpoonup> string) \<Rightarrow> string \<Rightarrow> jsval \<Rightarrow> (string \<rightharpoonup> string)" where
  "saveGitAuth e jar url auth =
     (let domain = url_domain url
      in jar(''git:'' @ js_text domain \<mapsto> json_stringify e auth))"

text \<open>The three hooks; clone, push and pull pass the same three.\<close>

definition onAuth :: "'s env \<Rightarrow> 's world \<Rightarrow> string \<Rightarrow> jsval" where
  "onAuth e w url =
     (let auth = lookupSavedPassword e (cookies w) url
      in if js_truthy auth then auth
         else if user_confirm e ''This repo is password protected. Ready to enter a username & password?''
         then JObj [(''username'', user_prompt e ''Enter username''),
                    (''password'', user_prompt e ''Enter password'')]
         else JObj [(''cancel'', JBool True)])"

definition onAuthFailure :: "'s env \<Rightarrow> string \<Rightarrow> jsval \<Rightarrow> 's world \<Rightarrow> 's world" where
  "onAuthFailure e url auth w =
     w\<lparr>toasts := toasts w @ [Toast_error (''Error Authenticating with '' @ js_text (url_domain url))]\<rparr>"

definition onAuthSuccess :: "'s env \<Rightarrow> string \<Rightarrow> jsval \<Rightarrow> 's world \<Rightarrow> 's world" where
  "onAuthSuccess e url auth w = w\<lparr>cookies := saveGitAuth e (cookies w) url auth\<rparr>"

text \<open>
  The eager header of clone and pull. \<open>auth\<close> is truthy where its properties are read,
  so the reads cannot raise; the template literal converts the user name first, then the
  password, and either conversion can raise.
\<close>

definition auth_headers ::
  "'s env \<Rightarrow> (string \<rightharpoonup> string) \<Rightarrow> string \<Rightarrow> thrown + (string \<times> string) list" where
  "auth_headers e jar url =
     (let headers = [(''User-Agent'', ''bolt.diy'')];
          auth = lookupSavedPassword e jar url
      in if js_truthy auth
         then (case js_toString (own_value ''username'' auth) of
                 Inl err \<Rightarrow> Inl err
               | Inr username \<Rightarrow>
                   (case js_toString (own_value ''password'' auth) of
                      Inl err \<Rightarrow> Inl err
                    | Inr password \<Rightarrow>
                        Inr (obj_assign ''Authorization''
                               (''Basic '' @ base64 e (username @ '':'' @ password)) headers)))
         else Inr headers)"

section \<open>Running the engine and the three operations of \<open>useGit\<close>\<close>

primrec run_prog :: "prog \<Rightarrow> 's env \<Rightarrow> 's world \<Rightarrow> (thrown + jsval) \<times> 's world" where
  "run_prog (Return r) e w = (r, w)"
| "run_prog (FsCall c k) e w = (let (r, w') = fs_dispatch e c w in run_prog (k r) e w')"
| "run_prog (OnAuth url k) e w = run_prog (k (onAuth e w url)) e w"
| "run_prog (OnAuthFailure url auth p) e w = run_prog p e (onAuthFailure e url auth w)"
| "run_prog (OnAuthSuccess url auth p) e w = run_prog p e (onAuthSuccess e url auth w)"

definition invoke :: "'s env \<Rightarrow> invocation \<Rightarrow> 's world \<Rightarrow> (thrown + jsval) \<times> 's world" where
  "invoke e entry w = run_prog (engine e entry) e (w\<lparr>invoked := invoked w @ [entry]\<rparr>)"

record clone_result =
  cr_workdir :: string
  cr_data :: "(string \<times> ledger_entry) list"

text \<open>The copy loop over \<open>Object.entries(fileData.current)\<close>.\<close>

definition snapshot :: "(string \<times> ledger_entry) list \<Rightarrow> (string \<times> ledger_entry) list" where
  "snapshot entries = foldl (\<lambda>dat (key, val). obj_assign key val dat) [] entries"

definition gitClone :: "'s env \<Rightarrow> string \<Rightarrow> 's world \<Rightarrow> (thrown + clone_result) \<times> 's world" where
  "gitClone e url w =
     (if \<not> ready w then (Inl (ThrowStr ''Webcontainer not initialized''), w)
      else
        let w0 = w\<lparr>ledger := []\<rparr>
        in case auth_headers e (cookies w0) url of
             Inl err \<Rightarrow> (Inl err, w0)
           | Inr headers \<Rightarrow>
               let (r, w1) = invoke e (Clone (workdir e) url 1 True ''/api/git-proxy'' headers) w0
               in (case r of
                     Inr done \<Rightarrow>
                       (Inr \<lparr>cr_workdir = workdir e, cr_data = snapshot (ledger w1)\<rparr>, w1)
                   | Inl error \<Rightarrow> (Inl error, w1)))"

definition gitPush :: "'s env \<Rightarrow> string \<Rightarrow> string \<Rightarrow> 's world \<Rightarrow> (thrown + unit) \<times> 's world" where
  "gitPush e remote branch w =
     (if \<not> ready w then (Inl (ThrowStr ''Webcontainer not initialized''), w)
      else
        let (r, w1) = invoke e (Push (workdir e) remote branch ''https://cors.isomorphic-git.org'') w
        in case r of
             Inr done \<Rightarrow>
               (Inr (),
                w1\<lparr>toasts := toasts w1 @
                      [Toast_success (''Successfully pushed to '' @ remote @ ''/'' @ branch)]\<rparr>)
           | Inl error \<Rightarrow>
               (Inl error,
                w1\<lparr>toasts := toasts w1 @
                      [Toast_error ''Failed to push changes. Check the console for more details.'']\<rparr>))"

text \<open>
  In \<open>gitClone\<close> and \<open>gitPull\<close> the header computation stands before the \<open>try\<close>
  block: when it raises, the operation fails before the engine's clone or pull is
  invoked. In \<open>gitPull\<close> the configuration read stands there too; a truthy configuration
  value that is not a string has no \<open>split\<close> method, and the lookup raises a TypeError.
\<close>

definition gitPull :: "'s env \<Rightarrow> 's world \<Rightarrow> (thrown + unit) \<times> 's world" where
  "gitPull e w =
     (if \<not> ready w then (Inl (ThrowStr ''Webcontainer not initialized''), w)
      else
        let (rc, w1) = invoke e (GetConfig (workdir e) ''remote.origin.url'') w
        in case rc of
             Inl error \<Rightarrow> (Inl error, w1)
           | Inr remoteUrl \<Rightarrow>
               if \<not> js_truthy remoteUrl then (Inl (ThrowStr ''No remote repository found''), w1)
               else
                 (case remoteUrl of
                    JStr u \<Rightarrow>
                      (case auth_headers e (cookies w1) u of
                         Inl err \<Rightarrow> (Inl err, w1)
                       | Inr headers \<Rightarrow>
                           let (r, w2) =
                                 invoke e (Pull (workdir e) True ''/api/git-proxy'' headers) w1
                           in (case r of
                                 Inr done \<Rightarrow>
                                   (Inr (),
                                    w2\<lparr>toasts := toasts w2 @ [Toast_success ''Git pull successful'']\<rparr>)
                               | Inl error \<Rightarrow> (Inl error, w2)))
                  | other \<Rightarrow>
                      (Inl (ThrowErr (new_TypeError ''url.split is not a function'')), w1)))"

text \<open>
  The calls of the adapter that a run of a program makes, in order; with the entry point
  recorded first, as \<open>invoke\<close> does.
\<close>

primrec calls_made :: "prog \<Rightarrow> 's env \<Rightarrow> 's world \<Rightarrow> fs_call list" where
  "calls_made (Return r) e w = []"
| "calls_made (FsCall c k) e w = (let (r, w') = fs_dispatch e c w in c # calls_made (k r) e w')"
| "calls_made (OnAuth url k) e w = calls_made (k (onAuth e w url)) e w"
| "calls_made (OnAuthFailure url auth p) e w = calls_made p e (onAuthFailure e url auth w)"
| "calls_made (OnAuthSuccess url auth p) e w = calls_made p e (onAuthSuccess e url auth w)"

definition engine_calls :: "'s env \<Rightarrow> invocation \<Rightarrow> 's world \<Rightarrow> fs_call list" where
  "engine_calls e entry w = calls_made (engine e entry) e (w\<lparr>invoked := invoked w @ [entry]\<rparr>)"

fun is_writeFile :: "fs_call \<Rightarrow> bool" where
  "is_writeFile (WriteFile p dat options) = True"
| "is_writeFile c = False"

text \<open>
  What one call of the adapter does to the ledger: a \<open>writeFile\<close> whose options can be
  read records its entry, every other call leaves the ledger as it is.
\<close>

fun ledger_effect ::
  "'s env \<Rightarrow> (string \<times> ledger_entry) list \<Rightarrow> fs_call \<Rightarrow> (string \<times> ledger_entry) list" where
  "ledger_effect e l (WriteFile p dat options) =
     (if options = JUndefined \<or> options = JNull then l
      else obj_assign (relative (workdir e) p)
             \<lparr>le_data = dat, le_encoding = own_value ''encoding'' options\<rparr> l)"
| "ledger_effect e l c = l"

text \<open>A sequence of \<open>writeFile\<close> calls (path, data, options), made one after the other.\<close>

definition writeFile_all ::
  "'s env \<Rightarrow> (string \<times> jsval \<times> jsval) list \<Rightarrow> 's world \<Rightarrow> 's world" where
  "writeFile_all e calls w = foldl (\<lambda>w' (p, dat, options). snd (writeFile e p dat options w')) w calls"

section \<open>A concrete environment for evaluating examples\<close>

text \<open>
  The container of this environment keeps, as its state, the list of removals it was
  asked for (path and \<open>recursive\<close> flag received); its root directory lists a file
  \<open>README.md\<close> and a directory \<open>src\<close>, and every other listing fails. The engine
  writes one file during a clone and then fails, writes one file during a push, and
  finds no configured remote; the quiet engine only reads a file and asks for
  credentials. The JSON parser knows the two texts used in the examples, and the
  base64 encoder only marks its argument.
\<close>

definition probe_json_parse :: "string \<Rightarrow> thrown + jsval" where
  "probe_json_parse s =
     (if s = ''{}'' then Inr (JObj [])
      else if s = ''null'' then Inr JNull
      else Inl (ThrowErr ((new_Error ''Unexpected token'')\<lparr>err_name := ''SyntaxError''\<rparr>)))"

definition probe_engine :: "invocation \<Rightarrow> prog" where
  "probe_engine entry =
     (case entry of
        Clone d u n b c h \<Rightarrow>
          FsCall (WriteFile ''/home/project/README.md'' (JStr ''hello'')
                    (JObj [(''encoding'', JStr ''utf8'')]))
            (\<lambda>r. Return (Inl (ThrowStr ''network failure'')))
      | Push d r b c \<Rightarrow>
          FsCall (WriteFile ''/home/project/.git/refs/remotes/origin/main'' (JStr ''0a1b2c'')
                    (JObj [(''encoding'', JStr ''utf8'')]))
            (\<lambda>r. Return (Inr JUndefined))
      | Pull d b c h \<Rightarrow> Return (Inr JUndefined)
      | GetConfig d p \<Rightarrow> Return (Inr JUndefined))"

definition probe_env :: "(string \<times> jsval option) list env" where
  "probe_env =
     \<lparr>workdir = ''/home/project'',
      clock = (\<lambda>s. 1700000000000),
      sb_readFile = (\<lambda>p enc s. (Inr (JStr ''content''), s)),
      sb_writeFile = (\<lambda>p d opts s. (Inr JUndefined, s)),
      sb_mkdir = (\<lambda>p opts s. (Inr JUndefined, s)),
      sb_readdir = (\<lambda>p opts s.
         (if p = ''.''
          then Inr (Dirents [\<lparr>d_name = ''README.md'', d_isFile = True, d_isDirectory = False\<rparr>,
                             \<lparr>d_name = ''src'', d_isFile = False, d_isDirectory = True\<rparr>])
          else Inl (ThrowErr (new_Error ''no such directory'')), s)),
      sb_rm = (\<lambda>p opts s. (Inr JUndefined, s @ [(p, opts ''recursive'')])),
      engine = probe_engine,
      json_parse = probe_json_parse,
      json_stringify = (\<lambda>v. ''{}''),
      base64 = (\<lambda>s. ''base64:'' @ s),
      user_confirm = (\<lambda>q. True),
      user_prompt = (\<lambda>q. JNull)\<rparr>"

definition quiet_engine :: "invocation \<Rightarrow> prog" where
  "quiet_engine entry =
     FsCall (ReadFile ''/home/project/.git/HEAD'' JUndefined)
       (\<lambda>r. OnAuth ''https://example.com/org/repo.git'' (\<lambda>auth. Return (Inr JUndefined)))"

definition quiet_env :: "(string \<times> jsval option) list env" where
  "quiet_env = probe_env\<lparr>engine := quiet_engine\<rparr>"

definition probe_world :: "(string \<times> jsval option) list world" where
  "probe_world =
     \<lparr>ready = True, ledger = [], cookies = Map.empty, toasts = [], invoked = [], container = []\<rparr>"

section \<open>Path algebra: \<open>relative\<close> against its description\<close>

lemma split_js_not_Nil: "split_js sep s \<noteq> []"
  by (induction s) (auto split: list.splits)

lemma split_js_snoc_sep: "split_js sep (s @ [sep]) = split_js sep s @ [[]]"
  by (induction s) (auto split: list.splits simp: split_js_not_Nil)

lemma split_js_trailing_seps:
  "split_js sep (s @ replicate n sep) = split_js sep s @ replicate n []"
proof (induction n)
  case 0
  show ?case by simp
next
  case (Suc n)
  have "s @ replicate (Suc n) sep = (s @ replicate n sep) @ [sep]"
    by (simp add: replicate_append_same)
  then show ?case
    using Suc by (simp only: split_js_snoc_sep) (simp add: replicate_append_same)
qed

lemma takeWhile_sep_replicate:
  "takeWhile (\<lambda>c. c = sep) xs = replicate (length (takeWhile (\<lambda>c. c = sep) xs)) sep"
  by (induction xs) auto

lemma strip_trailing_decomp: "\<exists>n. s = strip_trailing sep s @ replicate n sep"
proof -
  let ?P = "\<lambda>c. c = sep"
  have "rev s = takeWhile ?P (rev s) @ dropWhile ?P (rev s)"
    by simp
  then have "s = rev (dropWhile ?P (rev s)) @ rev (takeWhile ?P (rev s))"
    by (metis rev_append rev_rev_ident)
  moreover have "rev (takeWhile ?P (rev s)) = replicate (length (takeWhile ?P (rev s))) sep"
    by (metis takeWhile_sep_replicate rev_replicate)
  ultimately show ?thesis
    unfolding strip_trailing_def by metis
qed

lemma nonempty_pieces_strip:
  "filter (\<lambda>s. s \<noteq> []) (split_js sep (strip_trailing sep p)) =
   filter (\<lambda>s. s \<noteq> []) (split_js sep p)"
proof -
  obtain n where "p = strip_trailing sep p @ replicate n sep"
    using strip_trailing_decomp by blast
  then have "split_js sep p = split_js sep (strip_trailing sep p) @ replicate n []"
    by (metis split_js_trailing_seps)
  then show ?thesis by simp
qed

lemma spec_segments_from_split:
  "spec_segments_from cur cs =
     filter (\<lambda>s. s \<noteq> [])
       ((cur @ hd (split_js CHR ''/'' cs)) # tl (split_js CHR ''/'' cs))"
  by (induction cs arbitrary: cur) (auto split: list.splits simp: split_js_not_Nil)

lemma normalizePathParts_segments: "normalizePathParts p = spec_segments p"
proof -
  have "spec_segments_from [] p = filter (\<lambda>s. s \<noteq> []) (split_js CHR ''/'' p)"
    using spec_segments_from_split [of "[]" p] split_js_not_Nil [of "CHR ''/''" p]
    by (cases "split_js CHR ''/'' p") auto
  then show ?thesis
    by (simp add: normalizePathParts_def spec_segments_def nonempty_pieces_strip)
qed

lemma commonLength_loop_prefix:
  "i \<le> m \<Longrightarrow> m \<le> length f \<Longrightarrow> m \<le> length t \<Longrightarrow>
   commonLength_loop f t m i c = c + min (m - i) (spec_common_prefix (drop i f) (drop i t))"
proof (induction f t m i c rule: commonLength_loop.induct)
  case (1 f t m i c)
  show ?case
  proof (cases "i < m")
    case False
    with 1 show ?thesis by (simp add: commonLength_loop.simps)
  next
    case True
    then have df: "drop i f = f ! i # drop (Suc i) f" and dt: "drop i t = t ! i # drop (Suc i) t"
      using 1 by (simp_all add: Cons_nth_drop_Suc)
    show ?thesis
    proof (cases "f ! i = t ! i")
      case False
      with True df dt show ?thesis by (simp add: commonLength_loop.simps)
    next
      case same: True
      have "commonLength_loop f t m i c = commonLength_loop f t m (i + 1) (c + 1)"
        using True same by (simp add: commonLength_loop.simps)
      also have "\<dots> = (c + 1) + min (m - (i + 1))
                          (spec_common_prefix (drop (i + 1) f) (drop (i + 1) t))"
        using "1.IH" [OF True] same True "1.prems" by simp
      finally show ?thesis using True same df dt by simp
    qed
  qed
qed

lemma spec_common_prefix_le: "spec_common_prefix xs ys \<le> min (length xs) (length ys)"
  by (induction xs ys rule: spec_common_prefix.induct) auto

lemma commonLength_loop_full:
  "commonLength_loop f t (min (length f) (length t)) 0 0 = spec_common_prefix f t"
  using commonLength_loop_prefix [of 0 "min (length f) (length t)" f t 0]
    spec_common_prefix_le [of f t]
  by simp

lemma relative_nonempty: "from \<noteq> [] \<Longrightarrow> to \<noteq> [] \<Longrightarrow> relative from to = spec_relative from to"
  by (simp add: relative_def spec_relative_def normalizePathParts_segments
      commonLength_loop_full Let_def)

text \<open>
  Claim C1, as amended. For every pair of non-empty path strings, \<open>relative\<close> gives the
  result the description computes: both paths cut into their non-empty segments, the
  longest common prefix dropped, one \<open>..\<close> for each remaining segment of \<open>from\<close>, then
  the remaining segments of \<open>to\<close>, joined by the separator, and \<open>.\<close> when nothing is
  left. When either path is the empty string the guard at the head of the function
  answers \<open>.\<close> without looking at the other path. In particular the relative path from
  \<open>/a/b\<close> to \<open>/a/b/c\<close> is \<open>c\<close>.
\<close>

theorem relative_by_segments:
  "(from \<noteq> [] \<and> to \<noteq> [] \<longrightarrow> relative from to = spec_relative from to)
   \<and> (from = [] \<or> to = [] \<longrightarrow> relative from to = ''.'')
   \<and> relative ''/a/b'' ''/a/b/c'' = ''c''"
proof -
  have "relative ''/a/b'' ''/a/b/c'' = spec_relative ''/a/b'' ''/a/b/c''"
    by (rule relative_nonempty) simp_all
  also have "\<dots> = ''c''"
    by (simp add: spec_relative_def spec_segments_def)
  finally show ?thesis
    by (simp add: relative_nonempty) (simp add: relative_def)
qed

text \<open>
  The theorem at the paths \<open>/a/b//\<close> and \<open>/a//c/d/\<close> (repeated and trailing separators),
  and at an empty \<open>from\<close>.
\<close>

theorem relative_by_segments_witness:
  "''/a/b//'' \<noteq> [] \<and> ''/a//c/d/'' \<noteq> []
   \<and> relative ''/a/b//'' ''/a//c/d/'' = ''../c/d''
   \<and> relative [] ''/a'' = ''.''"
  using relative_by_segments [of "''/a/b//''" "''/a//c/d/''"] relative_by_segments [of "[]" "''/a''"]
  by (simp add: spec_relative_def spec_segments_def)

text \<open>
  Claim C1 as stated fails for an empty \<open>from\<close>: the description gives \<open>a/b\<close>, the code
  gives \<open>.\<close>.
\<close>

theorem relative_empty_from_counterexample:
  "relative [] ''a/b'' = ''.'' \<and> spec_relative [] ''a/b'' = ''a/b''
   \<and> relative [] ''a/b'' \<noteq> spec_relative [] ''a/b''"
  by (simp add: relative_def spec_relative_def spec_segments_def)

section \<open>The filesystem adapter: \<open>stat\<close>\<close>

lemma stat_try_fst:
  "fst (stat_try e p w) =
     (case fst (sb_readdir e (dirname (relative (workdir e) p))
                  (JObj [(''withFileTypes'', JBool True)]) (container w)) of
        Inl err \<Rightarrow> Inl err
      | Inr entries \<Rightarrow>
          (case find_entry (basename (relative (workdir e) p) None) entries of
             None \<Rightarrow> Inl (ThrowErr (new_Error
                 (''ENOENT: no such file or directory, stat '' @ [CHR 0x27] @ p @ [CHR 0x27])))
           | Some fi \<Rightarrow> Inr \<lparr>st_isFile = d_isFile fi,
                    st_isDirectory = d_isDirectory fi,
                    st_isSymbolicLink = False,
                    st_size = 1,
                    st_mode = 438,
                    st_mtimeMs = clock e (snd (sb_readdir e (dirname (relative (workdir e) p))
                                    (JObj [(''withFileTypes'', JBool True)]) (container w))),
                    st_uid = 1000,
                    st_gid = 1000\<rparr>))"
  by (simp add: stat_try_def Let_def split: prod.splits sum.splits option.splits)

lemma stat_fst:
  "fst (stat e p w) =
     (case fst (stat_try e p w) of
        Inr st \<Rightarrow> Inr (Stats st)
      | Inl error \<Rightarrow>
          Inl (ThrowErr
            \<lparr>err_name = ''Error'',
             err_message = ''ENOENT: no such file or directory, stat '' @ [CHR 0x27] @ p @ [CHR 0x27],
             err_code = Some ''ENOENT'', err_errno = Some (- 2), err_syscall = Some ''stat'',
             err_path = Some p\<rparr>))"
  by (cases "stat_try e p w") (simp add: stat_def new_Error_def split: sum.splits)

lemma find_Some_holds: "find P xs = Some x \<Longrightarrow> P x \<and> x \<in> set xs"
  by (induction xs) (auto split: if_splits)

text \<open>
  Claim C2. For every path, \<open>stat\<close> lists the parent directory of the translated path
  and looks for the first entry whose name is the basename. When the listing fails, when
  it carries no file types, or when no entry has that name, \<open>stat\<close> fails with the error
  of code ENOENT, errno -2, syscall \<open>stat\<close> and the requested path echoed back. When
  an entry has the name, \<open>stat\<close> answers with the stats synthesized from that entry.
  There is no third outcome.
\<close>

theorem stat_synthesizes_or_enoent:
  "let rel = relative (workdir e) p;
       answer = sb_readdir e (dirname rel) (JObj [(''withFileTypes'', JBool True)]) (container w);
       resp = fst answer;
       r = fst (stat e p w);
       enoent = ThrowErr
            \<lparr>err_name = ''Error'',
             err_message = ''ENOENT: no such file or directory, stat '' @ [CHR 0x27] @ p @ [CHR 0x27],
             err_code = Some ''ENOENT'', err_errno = Some (- 2), err_syscall = Some ''stat'',
             err_path = Some p\<rparr>
   in (\<forall>err. resp = Inl err \<longrightarrow> r = Inl enoent)
    \<and> (\<forall>ns. resp = Inr (Names ns) \<longrightarrow> r = Inl enoent)
    \<and> (\<forall>ds. resp = Inr (Dirents ds) \<longrightarrow>
          find (\<lambda>x. d_name x = basename rel None) ds = None \<longrightarrow> r = Inl enoent)
    \<and> (\<forall>ds fi. resp = Inr (Dirents ds) \<longrightarrow>
          find (\<lambda>x. d_name x = basename rel None) ds = Some fi \<longrightarrow>
          d_name fi = basename rel None \<and> fi \<in> set ds \<and>
          r = Inr (Stats \<lparr>st_isFile = d_isFile fi, st_isDirectory = d_isDirectory fi,
                           st_isSymbolicLink = False, st_size = 1, st_mode = 438,
                           st_mtimeMs = clock e (snd answer), st_uid = 1000, st_gid = 1000\<rparr>))
    \<and> ((\<exists>st. r = Inr (Stats st)) \<or> r = Inl enoent)"
proof -
  let ?rel = "relative (workdir e) p"
  let ?answer = "sb_readdir e (dirname ?rel) (JObj [(''withFileTypes'', JBool True)]) (container w)"
  have a: "fst ?answer = Inl err \<Longrightarrow> fst (stat_try e p w) = Inl err" for err
    by (simp add: stat_try_fst)
  have b: "fst ?answer = Inr (Names ns) \<Longrightarrow> \<exists>x. fst (stat_try e p w) = Inl x" for ns
    by (simp add: stat_try_fst find_entry_def)
  have c: "fst ?answer = Inr (Dirents ds) \<Longrightarrow> find (\<lambda>x. d_name x = basename ?rel None) ds = None
           \<Longrightarrow> \<exists>x. fst (stat_try e p w) = Inl x" for ds
    by (simp add: stat_try_fst find_entry_def)
  have d: "fst ?answer = Inr (Dirents ds) \<Longrightarrow> find (\<lambda>x. d_name x = basename ?rel None) ds = Some fi
           \<Longrightarrow> fst (stat_try e p w) =
                 Inr \<lparr>st_isFile = d_isFile fi, st_isDirectory = d_isDirectory fi,
                      st_isSymbolicLink = False, st_size = 1, st_mode = 438,
                      st_mtimeMs = clock e (snd ?answer), st_uid = 1000, st_gid = 1000\<rparr>" for ds fi
    by (simp add: stat_try_fst find_entry_def)
  have e: "(\<exists>st. fst (stat e p w) = Inr (Stats st)) \<or> fst (stat e p w) = Inl (ThrowErr
            \<lparr>err_name = ''Error'',
             err_message = ''ENOENT: no such file or directory, stat '' @ [CHR 0x27] @ p @ [CHR 0x27],
             err_code = Some ''ENOENT'', err_errno = Some (- 2), err_syscall = Some ''stat'',
             err_path = Some p\<rparr>)"
    by (cases "fst (stat_try e p w)") (simp_all add: stat_fst)
  show ?thesis
    unfolding Let_def
    apply (intro conjI allI impI)
    subgoal for err using a [of err] by (simp add: stat_fst)
    subgoal for ns using b [of ns] by (auto simp: stat_fst)
    subgoal for ds using c [of ds] by (auto simp: stat_fst)
    subgoal for ds fi using find_Some_holds [of "\<lambda>x. d_name x = basename ?rel None" ds fi] by simp
    subgoal for ds fi using find_Some_holds [of "\<lambda>x. d_name x = basename ?rel None" ds fi] by simp
    subgoal for ds fi using d [of ds fi] by (simp add: stat_fst)
    subgoal using e by simp
    done
qed

text \<open>
  The theorem in the concrete environment: an existing file, a name missing from the
  root listing, and a path whose parent directory cannot be listed.
\<close>

theorem stat_synthesizes_or_enoent_witness:
  "fst (stat probe_env ''/home/project/README.md'' probe_world) =
     Inr (Stats \<lparr>st_isFile = True, st_isDirectory = False, st_isSymbolicLink = False,
                  st_size = 1, st_mode = 438, st_mtimeMs = 1700000000000, st_uid = 1000, st_gid = 1000\<rparr>)
   \<and> fst (stat probe_env ''/home/project/missing.txt'' probe_world) =
     Inl (ThrowErr \<lparr>err_name = ''Error'',
             err_message = ''ENOENT: no such file or directory, stat '' @ [CHR 0x27] @ ''/home/project/missing.txt'' @ [CHR 0x27],
             err_code = Some ''ENOENT'', err_errno = Some (- 2), err_syscall = Some ''stat'',
             err_path = Some ''/home/project/missing.txt''\<rparr>)
   \<and> fst (stat probe_env ''/home/project/lib/x.ts'' probe_world) =
     Inl (ThrowErr \<lparr>err_name = ''Error'',
             err_message = ''ENOENT: no such file or directory, stat '' @ [CHR 0x27] @ ''/home/project/lib/x.ts'' @ [CHR 0x27],
             err_code = Some ''ENOENT'', err_errno = Some (- 2), err_syscall = Some ''stat'',
             err_path = Some ''/home/project/lib/x.ts''\<rparr>)"
proof -
  have rel: "relative (workdir probe_env) ''/home/project/README.md'' = ''README.md''"
     "relative (workdir probe_env) ''/home/project/missing.txt'' = ''missing.txt''"
     "relative (workdir probe_env) ''/home/project/lib/x.ts'' = ''lib/x.ts''"
    by (simp_all add: probe_env_def relative_nonempty spec_relative_def spec_segments_def)
  have dn: "dirname ''README.md'' = ''.''" "dirname ''missing.txt'' = ''.''" "dirname ''lib/x.ts'' = ''lib''"
    by (simp_all add: dirname_def strip_trailing_def)
  have bn: "basename ''README.md'' None = ''README.md''" "basename ''missing.txt'' None = ''missing.txt''"
    by (simp_all add: basename_def strip_trailing_def)
  have rd: "sb_readdir probe_env = (\<lambda>p opts s.
         (if p = ''.''
          then Inr (Dirents [\<lparr>d_name = ''README.md'', d_isFile = True, d_isDirectory = False\<rparr>,
                             \<lparr>d_name = ''src'', d_isFile = False, d_isDirectory = True\<rparr>])
          else Inl (ThrowErr (new_Error ''no such directory'')), s))"
       "clock probe_env = (\<lambda>s. 1700000000000)"
    by (simp_all add: probe_env_def)
  show ?thesis
    using stat_synthesizes_or_enoent [of probe_env "''/home/project/README.md''" probe_world]
      stat_synthesizes_or_enoent [of probe_env "''/home/project/missing.txt''" probe_world]
      stat_synthesizes_or_enoent [of probe_env "''/home/project/lib/x.ts''" probe_world]
    by (simp add: rel dn bn rd Let_def)
qed

section \<open>The filesystem adapter: \<open>rmdir\<close>, the link family and \<open>chmod\<close>\<close>

text \<open>
  Claim C3, as amended. \<open>rmdir\<close> delegates to the container's remove operation on the
  translated path with \<open>recursive\<close> set to true by default: the caller's options are
  spread after it, so a \<open>recursive\<close> property of the caller's options is passed on as
  given, and every other property is passed on unchanged.
\<close>

theorem rmdir_recursive_default:
  "rmdir e p options w = await_sb (sb_rm e (relative (workdir e) p) (rmdir_options options)) Val w
   \<and> rmdir_options options ''recursive'' =
       Some (case spread options ''recursive'' of None \<Rightarrow> JBool True | Some v \<Rightarrow> v)
   \<and> (\<forall>k. k \<noteq> ''recursive'' \<longrightarrow> rmdir_options options k = spread options k)"
  by (simp add: rmdir_def rmdir_options_def map_add_def split: option.splits)

text \<open>
  The theorem in the concrete environment, whose container records the flag it receives:
  without options, and with options that do not mention \<open>recursive\<close>, the flag is true.
\<close>

theorem rmdir_recursive_default_witness:
  "container (snd (rmdir probe_env ''/home/project/old'' JUndefined probe_world)) = [(''old'', Some (JBool True))]
  \<and> container (snd (rmdir probe_env ''/home/project/old'' (JObj [(''force'', JBool True)]) probe_world)) = [(''old'', Some (JBool True))]"
  using rmdir_recursive_default [of probe_env "''/home/project/old''" JUndefined probe_world]
     rmdir_recursive_default [of probe_env "''/home/project/old''" "JObj [(''force'', JBool True)]" probe_world]
  by (simp add: await_sb_def probe_env_def probe_world_def spread_def relative_nonempty spec_relative_def spec_segments_def)

text \<open>
  Claim C3 as stated fails when the caller passes \<open>recursive: false\<close>: the container
  receives \<open>false\<close>.
\<close>

theorem rmdir_recursive_false_counterexample:
  "container (snd (rmdir probe_env ''/home/project/old'' (JObj [(''recursive'', JBool False)]) probe_world))
     = [(''old'', Some (JBool False))]"
  by (simp add: rmdir_def rmdir_options_def await_sb_def probe_env_def probe_world_def spread_def relative_nonempty spec_relative_def spec_segments_def)

text \<open>
  Claim C5, evaluated on the code. \<open>readlink\<close> and \<open>symlink\<close> fail on every input and
  \<open>chmod\<close> resolves on every input and changes nothing. The two failures are plain
  \<open>Error\<close> values: only the message names EINVAL or EPERM, the operation and the path;
  the properties \<open>code\<close>, \<open>errno\<close>, \<open>syscall\<close> and \<open>path\<close> are not set, unlike in the
  error \<open>stat\<close> builds.
\<close>

theorem readlink_symlink_plain_errors:
  "fst (readlink e p w) = Inl (ThrowErr
       \<lparr>err_name = ''Error'',
        err_message = ''EINVAL: invalid argument, readlink '' @ [CHR 0x27] @ p @ [CHR 0x27],
        err_code = None, err_errno = None, err_syscall = None, err_path = None\<rparr>)
   \<and> fst (symlink e target p w) = Inl (ThrowErr
       \<lparr>err_name = ''Error'',
        err_message = ''EPERM: operation not permitted, symlink '' @ [CHR 0x27] @ target @ [CHR 0x27]
           @ '' -> '' @ [CHR 0x27] @ p @ [CHR 0x27],
        err_code = None, err_errno = None, err_syscall = None, err_path = None\<rparr>)
   \<and> chmod e p mode w = (Inr (Val JUndefined), w)"
  by (simp add: readlink_def symlink_def chmod_def new_Error_def)

section \<open>The write ledger\<close>

lemma obj_replace_keys: "map fst (obj_replace k v l) = map fst l"
proof (induction l)
  case Nil
  show ?case by simp
next
  case (Cons a l)
  obtain k' v' where a: "a = (k', v')" by (cases a)
  show ?case using Cons a by simp
qed

lemma obj_insert_keys: "fst ` set (obj_insert k v l) = insert k (fst ` set l)"
proof (induction l)
  case Nil
  show ?case by simp
next
  case (Cons a l)
  obtain k' v' where a: "a = (k', v')" by (cases a)
  show ?case using Cons a by auto
qed

lemma obj_insert_distinct:
  "k \<notin> fst ` set l \<Longrightarrow> distinct (map fst l) \<Longrightarrow> distinct (map fst (obj_insert k v l))"
proof (induction l)
  case Nil
  show ?case by simp
next
  case (Cons a l)
  obtain k' v' where a: "a = (k', v')" by (cases a)
  have "k' \<notin> fst ` set (obj_insert k v l)"
    using Cons.prems a by (auto simp: obj_insert_keys)
  then show ?case using Cons a by auto
qed

lemma obj_insert_sorted:
  "sorted (map (key_rank \<circ> fst) l) \<Longrightarrow> sorted (map (key_rank \<circ> fst) (obj_insert k v l))"
proof (induction l)
  case Nil
  show ?case by simp
next
  case (Cons a l)
  obtain k' v' where a: "a = (k', v')" by (cases a)
  show ?case
  proof (cases "key_rank k < key_rank k'")
    case True
    then show ?thesis using Cons.prems a by auto
  next
    case False
    have "\<forall>y \<in> fst ` set (obj_insert k v l). key_rank k' \<le> key_rank y"
      using Cons.prems a False unfolding obj_insert_keys by auto
    then show ?thesis using Cons a False by auto
  qed
qed

lemma obj_insert_last:
  "\<forall>y \<in> fst ` set l. key_rank y \<le> key_rank k \<Longrightarrow> obj_insert k v l = l @ [(k, v)]"
proof (induction l)
  case Nil
  show ?case by simp
next
  case (Cons a l)
  obtain k' v' where a: "a = (k', v')" by (cases a)
  show ?case using Cons a by auto
qed

lemma obj_replace_key_set: "fst ` set (obj_replace k v l) = fst ` set l"
  using obj_replace_keys [of k v l] by (metis set_map)

lemma obj_replace_sorted:
  "sorted (map (key_rank \<circ> fst) (obj_replace k v l)) = sorted (map (key_rank \<circ> fst) l)"
  using obj_replace_keys [of k v l] by (metis map_map)

lemma obj_assign_keys:
  "fst ` set (obj_assign k v l) =
     (if k = ''__proto__'' then fst ` set l else insert k (fst ` set l))"
  by (auto simp: obj_assign_def obj_replace_key_set obj_insert_keys)

lemma obj_assign_distinct: "distinct (map fst l) \<Longrightarrow> distinct (map fst (obj_assign k v l))"
  by (simp add: obj_assign_def obj_replace_keys obj_insert_distinct)

lemma obj_assign_plain: "plain_object l \<Longrightarrow> plain_object (obj_assign k v l)"
  unfolding plain_object_def
  by (simp add: obj_assign_distinct obj_assign_keys)
     (simp add: obj_assign_def obj_replace_sorted obj_insert_sorted)

lemma obj_assign_append:
  assumes "plain_object (acc @ [(k, v)])"
  shows "obj_assign k v acc = acc @ [(k, v)]"
proof -
  have 1: "k \<noteq> ''__proto__''" and 2: "k \<notin> fst ` set acc"
    using assms by (auto simp: plain_object_def)
  have "\<forall>y \<in> fst ` set acc. key_rank y \<le> key_rank k"
    using assms by (auto simp: plain_object_def sorted_append)
  then show ?thesis
    using 1 2 by (simp add: obj_assign_def obj_insert_last)
qed

lemma plain_object_prefix: "plain_object (xs @ ys) \<Longrightarrow> plain_object xs"
  by (auto simp: plain_object_def sorted_append)

lemma snapshot_foldl:
  "plain_object (acc @ l) \<Longrightarrow>
   foldl (\<lambda>dat (key, val). obj_assign key val dat) acc l = acc @ l"
proof (induction l arbitrary: acc)
  case Nil
  show ?case by simp
next
  case (Cons a l)
  obtain k v where a: "a = (k, v)" by (cases a)
  have whole: "plain_object ((acc @ [(k, v)]) @ l)"
    using Cons.prems a by simp
  then have "plain_object (acc @ [(k, v)])"
    by (rule plain_object_prefix)
  then have step: "obj_assign k v acc = acc @ [(k, v)]"
    by (rule obj_assign_append)
  have "foldl (\<lambda>dat (key, val). obj_assign key val dat) (acc @ [(k, v)]) l = (acc @ [(k, v)]) @ l"
    using whole by (rule Cons.IH)
  then show ?case using a step by simp
qed

lemma snapshot_plain: "plain_object l \<Longrightarrow> snapshot l = l"
  using snapshot_foldl [of "[]" l] by (simp add: snapshot_def)

lemma plain_object_Nil: "plain_object []"
  by (simp add: plain_object_def)

lemma plain_object_distinct: "plain_object l \<Longrightarrow> distinct (map fst l)"
  by (simp add: plain_object_def)

lemma obj_replace_filter_same:
  "distinct (map fst l) \<Longrightarrow> k \<in> fst ` set l \<Longrightarrow>
   filter (\<lambda>kv. fst kv = k) (obj_replace k v l) = [(k, v)]"
proof (induction l)
  case Nil
  then show ?case by simp
next
  case (Cons a l)
  obtain k' v' where a: "a = (k', v')" by (cases a)
  show ?case
  proof (cases "k' = k")
    case True
    then have "k \<notin> fst ` set l" using Cons.prems a by auto
    then have "filter (\<lambda>kv. fst kv = k) l = []" by (auto simp: filter_empty_conv)
    with True a show ?thesis by simp
  next
    case False
    with Cons a show ?thesis by simp
  qed
qed

lemma obj_insert_filter_same:
  "k \<notin> fst ` set l \<Longrightarrow> filter (\<lambda>kv. fst kv = k) (obj_insert k v l) = [(k, v)]"
proof (induction l)
  case Nil
  show ?case by simp
next
  case (Cons a l)
  obtain k' v' where a: "a = (k', v')" by (cases a)
  have "filter (\<lambda>kv. fst kv = k) l = []"
    using Cons.prems by (auto simp: filter_empty_conv)
  then show ?case using Cons a by auto
qed

lemma obj_assign_filter_same:
  "distinct (map fst l) \<Longrightarrow> k \<noteq> ''__proto__'' \<Longrightarrow>
   filter (\<lambda>kv. fst kv = k) (obj_assign k v l) = [(k, v)]"
  by (simp add: obj_assign_def obj_replace_filter_same obj_insert_filter_same)

lemma obj_replace_filter_other:
  "k' \<noteq> k \<Longrightarrow> filter (\<lambda>kv. fst kv = k) (obj_replace k' v l) = filter (\<lambda>kv. fst kv = k) l"
  by (induction l) auto

lemma obj_insert_filter_other:
  "k' \<noteq> k \<Longrightarrow> filter (\<lambda>kv. fst kv = k) (obj_insert k' v l) = filter (\<lambda>kv. fst kv = k) l"
  by (induction l) auto

lemma obj_assign_filter_other:
  "k' \<noteq> k \<Longrightarrow> filter (\<lambda>kv. fst kv = k) (obj_assign k' v l) = filter (\<lambda>kv. fst kv = k) l"
  by (simp add: obj_assign_def obj_replace_filter_other obj_insert_filter_other)

lemma writeFile_ledger:
  "ledger (snd (writeFile e p dat options w)) =
     (if options = JUndefined \<or> options = JNull then ledger w
      else obj_assign (relative (workdir e) p)
             \<lparr>le_data = dat, le_encoding = own_value ''encoding'' options\<rparr> (ledger w))"
  by (simp add: writeFile_def get_prop_def await_sb_def Let_def split: prod.splits)

lemma writeFile_plain:
  "plain_object (ledger w) \<Longrightarrow> plain_object (ledger (snd (writeFile e p dat options w)))"
  by (simp add: writeFile_ledger obj_assign_plain)

lemma writeFile_all_plain:
  "plain_object (ledger w) \<Longrightarrow> plain_object (ledger (writeFile_all e calls w))"
proof (induction calls arbitrary: w)
  case Nil
  then show ?case by (simp add: writeFile_all_def)
next
  case (Cons c calls)
  obtain p dat options where c: "c = (p, dat, options)" by (cases c)
  have "plain_object (ledger (snd (writeFile e p dat options w)))"
    using Cons.prems by (rule writeFile_plain)
  then have "plain_object (ledger (writeFile_all e calls (snd (writeFile e p dat options w))))"
    by (rule Cons.IH)
  then show ?case using c by (simp add: writeFile_all_def)
qed

lemma writeFile_filter_other:
  "relative (workdir e) q \<noteq> k \<Longrightarrow>
   filter (\<lambda>kv. fst kv = k) (ledger (snd (writeFile e q dat options w))) =
   filter (\<lambda>kv. fst kv = k) (ledger w)"
  by (simp add: writeFile_ledger obj_assign_filter_other)

lemma writeFile_all_filter_other:
  "\<forall>c \<in> set calls. relative (workdir e) (fst c) \<noteq> k \<Longrightarrow>
   filter (\<lambda>kv. fst kv = k) (ledger (writeFile_all e calls w)) = filter (\<lambda>kv. fst kv = k) (ledger w)"
proof (induction calls arbitrary: w)
  case Nil
  show ?case by (simp add: writeFile_all_def)
next
  case (Cons c calls)
  obtain q dat options where c: "c = (q, dat, options)" by (cases c)
  have step: "writeFile_all e (c # calls) w = writeFile_all e calls (snd (writeFile e q dat options w))"
    using c by (simp add: writeFile_all_def)
  have "filter (\<lambda>kv. fst kv = k) (ledger (writeFile_all e calls (snd (writeFile e q dat options w)))) =
        filter (\<lambda>kv. fst kv = k) (ledger (snd (writeFile e q dat options w)))"
    using Cons.prems by (intro Cons.IH) simp
  also have "\<dots> = filter (\<lambda>kv. fst kv = k) (ledger w)"
    using Cons.prems c by (intro writeFile_filter_other) simp
  finally show ?case using step by simp
qed

text \<open>
  For a relative path other than \<open>__proto__\<close> and a second write whose options argument
  is an object, the ledger keeps one entry per path and the later write replaces the
  earlier one, also when writes to other paths come before and after.
\<close>

lemma ledger_overwrite_ordinary:
  assumes "options2 \<noteq> JUndefined" and "options2 \<noteq> JNull"
    and "relative (workdir e) p \<noteq> ''__proto__''"
    and "\<forall>c \<in> set later. relative (workdir e) (fst c) \<noteq> relative (workdir e) p"
  shows "let start = writeFile_all e earlier (w\<lparr>ledger := []\<rparr>);
             w1 = snd (writeFile e p dat1 options1 start);
             w2 = snd (writeFile e p dat2 options2 w1);
             final = writeFile_all e later w2;
             key = relative (workdir e) p;
             entry = \<lparr>le_data = dat2, le_encoding = own_value ''encoding'' options2\<rparr>
         in distinct (map fst (ledger start))
          \<and> distinct (map fst (ledger final))
          \<and> filter (\<lambda>kv. fst kv = key) (ledger final) = [(key, entry)]
          \<and> filter (\<lambda>kv. fst kv = key) (snapshot (ledger final)) = [(key, entry)]"
proof -
  let ?start = "writeFile_all e earlier (w\<lparr>ledger := []\<rparr>)"
  let ?w1 = "snd (writeFile e p dat1 options1 ?start)"
  let ?w2 = "snd (writeFile e p dat2 options2 ?w1)"
  let ?final = "writeFile_all e later ?w2"
  let ?key = "relative (workdir e) p"
  let ?entry = "\<lparr>le_data = dat2, le_encoding = own_value ''encoding'' options2\<rparr>"
  have p0: "plain_object (ledger ?start)"
    by (rule writeFile_all_plain) (simp add: plain_object_Nil)
  then have p1: "plain_object (ledger ?w1)" by (rule writeFile_plain)
  then have p2: "plain_object (ledger ?w2)" by (rule writeFile_plain)
  then have p3: "plain_object (ledger ?final)" by (rule writeFile_all_plain)
  have l2: "ledger ?w2 = obj_assign ?key ?entry (ledger ?w1)"
    using assms(1,2) by (simp add: writeFile_ledger)
  have "filter (\<lambda>kv. fst kv = ?key) (ledger ?w2) = [(?key, ?entry)]"
    unfolding l2 using plain_object_distinct [OF p1] assms(3) by (rule obj_assign_filter_same)
  then have f: "filter (\<lambda>kv. fst kv = ?key) (ledger ?final) = [(?key, ?entry)]"
    using writeFile_all_filter_other [OF assms(4), of ?w2] by simp
  show ?thesis
    unfolding Let_def
    using plain_object_distinct [OF p0] plain_object_distinct [OF p3] f
    by (simp add: snapshot_plain [OF p3])
qed

text \<open>
  Claim C6 fails on two inputs, evaluated here in the concrete environment. A file
  whose relative path is \<open>__proto__\<close> is never recorded: the assignment
  \<open>record.current[relativePath] = ...\<close> on a plain object is taken by the prototype setter
  and creates no entry, so after two writes to that path the ledger and its snapshot are
  empty instead of holding the second data. A second write whose options argument is
  \<open>undefined\<close> raises a TypeError on \<open>options.encoding\<close> before it records anything
  (\<open>readFile\<close> in the same adapter reads \<open>options?.encoding\<close> and succeeds without
  options): the ledger still holds the data of the first write. For every other relative
  path and an options argument that is neither \<open>undefined\<close> nor \<open>null\<close>, the
  property holds (lemma \<open>ledger_overwrite_ordinary\<close>).
\<close>

theorem ledger_entry_missing_or_stale:
  "relative (workdir probe_env) ''/home/project/__proto__'' = ''__proto__''
   \<and> ledger (snd (writeFile probe_env ''/home/project/__proto__'' (JStr ''two'') (JObj [])
        (snd (writeFile probe_env ''/home/project/__proto__'' (JStr ''one'') (JObj []) probe_world)))) = []
   \<and> snapshot (ledger (snd (writeFile probe_env ''/home/project/__proto__'' (JStr ''two'') (JObj [])
        (snd (writeFile probe_env ''/home/project/__proto__'' (JStr ''one'') (JObj []) probe_world))))) = []
   \<and> fst (writeFile probe_env ''/home/project/a.txt'' (JStr ''two'') JUndefined
        (snd (writeFile probe_env ''/home/project/a.txt'' (JStr ''one'') (JObj []) probe_world)))
      = Inl (ThrowErr (new_TypeError ''Cannot read properties of undefined''))
   \<and> ledger (snd (writeFile probe_env ''/home/project/a.txt'' (JStr ''two'') JUndefined
        (snd (writeFile probe_env ''/home/project/a.txt'' (JStr ''one'') (JObj []) probe_world))))
      = [(''a.txt'', \<lparr>le_data = JStr ''one'', le_encoding = JUndefined\<rparr>)]
   \<and> fst (readFile probe_env ''/home/project/a.txt'' JUndefined probe_world) = Inr (Val (JStr ''content''))"
proof -
  have rel: "relative (workdir probe_env) ''/home/project/__proto__'' = ''__proto__''"
    "relative (workdir probe_env) ''/home/project/a.txt'' = ''a.txt''"
    by (simp_all add: probe_env_def relative_nonempty spec_relative_def spec_segments_def)
  have rd: "fst (readFile probe_env ''/home/project/a.txt'' JUndefined probe_world) = Inr (Val (JStr ''content''))"
    by (simp add: readFile_def await_sb_def probe_env_def Let_def)
  show ?thesis
    using rd
    by (simp add: rel writeFile_ledger obj_assign_def snapshot_def probe_world_def own_value_def)
       (simp add: writeFile_def get_prop_def)
qed

section \<open>What a run of the engine leaves unchanged\<close>

lemma await_sb_keeps:
  "ledger (snd (await_sb operation wrap w)) = ledger w"
  "invoked (snd (await_sb operation wrap w)) = invoked w"
  by (simp_all add: await_sb_def split: prod.splits)

lemma stat_keeps:
  "ledger (snd (stat e p w)) = ledger w"
  "invoked (snd (stat e p w)) = invoked w"
  by (simp_all add: stat_def stat_try_def Let_def split: prod.splits sum.splits option.splits)

lemma writeFile_invoked: "invoked (snd (writeFile e p dat options w)) = invoked w"
  by (simp add: writeFile_def await_sb_keeps Let_def split: sum.splits)

lemma fs_dispatch_invoked: "invoked (snd (fs_dispatch e c w)) = invoked w"
  by (cases c)
    (simp_all add: readFile_def writeFile_invoked mkdir_def readdir_def rm_def rmdir_def unlink_def
      stat_keeps lstat_def readlink_def symlink_def chmod_def await_sb_keeps Let_def)

lemma fs_dispatch_ledger: "ledger (snd (fs_dispatch e c w)) = ledger_effect e (ledger w) c"
  by (cases c)
    (simp_all add: readFile_def writeFile_ledger mkdir_def readdir_def rm_def rmdir_def unlink_def
      stat_keeps lstat_def readlink_def symlink_def chmod_def await_sb_keeps Let_def)

lemma ledger_effect_plain: "plain_object l \<Longrightarrow> plain_object (ledger_effect e l c)"
  by (cases c) (simp_all add: obj_assign_plain)

lemma fs_dispatch_plain:
  "plain_object (ledger w) \<Longrightarrow> plain_object (ledger (snd (fs_dispatch e c w)))"
  by (simp add: fs_dispatch_ledger ledger_effect_plain)

lemma run_prog_invoked: "invoked (snd (run_prog p e w)) = invoked w"
proof (induction p arbitrary: w)
  case (Return r)
  show ?case by simp
next
  case (FsCall c k)
  show ?case
    using FsCall [of "k (fst (fs_dispatch e c w))" "snd (fs_dispatch e c w)"] fs_dispatch_invoked [of e c w]
    by (simp add: split_def Let_def)
next
  case (OnAuth url k)
  then show ?case by simp
next
  case (OnAuthFailure url auth p)
  then show ?case by (simp add: onAuthFailure_def)
next
  case (OnAuthSuccess url auth p)
  then show ?case by (simp add: onAuthSuccess_def)
qed

lemma run_prog_ledger:
  "ledger (snd (run_prog p e w)) = foldl (ledger_effect e) (ledger w) (calls_made p e w)"
proof (induction p arbitrary: w)
  case (Return r)
  show ?case by simp
next
  case (FsCall c k)
  show ?case
    using FsCall [of "k (fst (fs_dispatch e c w))" "snd (fs_dispatch e c w)"]
    by (simp add: split_def Let_def fs_dispatch_ledger)
next
  case (OnAuth url k)
  then show ?case by simp
next
  case (OnAuthFailure url auth p)
  then show ?case by (simp add: onAuthFailure_def)
next
  case (OnAuthSuccess url auth p)
  then show ?case by (simp add: onAuthSuccess_def)
qed

lemma invoke_ledger:
  "ledger (snd (invoke e entry w)) = foldl (ledger_effect e) (ledger w) (engine_calls e entry w)"
  by (simp add: invoke_def engine_calls_def run_prog_ledger)

lemma foldl_ledger_effect_no_write:
  "filter is_writeFile cs = [] \<Longrightarrow> foldl (ledger_effect e) l cs = l"
proof (induction cs arbitrary: l)
  case Nil
  show ?case by simp
next
  case (Cons c cs)
  then have "\<not> is_writeFile c" and "filter is_writeFile cs = []"
    by (auto split: if_splits)
  then show ?case
    using Cons.IH by (cases c) simp_all
qed

lemma run_prog_plain:
  "plain_object (ledger w) \<Longrightarrow> plain_object (ledger (snd (run_prog p e w)))"
proof (induction p arbitrary: w)
  case (Return r)
  then show ?case by simp
next
  case (FsCall c k)
  have "plain_object (ledger (snd (fs_dispatch e c w)))"
    using FsCall.prems by (rule fs_dispatch_plain)
  then have "plain_object (ledger (snd (run_prog (k (fst (fs_dispatch e c w))) e (snd (fs_dispatch e c w)))))"
    by (intro FsCall.IH) auto
  then show ?case by (simp add: split_def Let_def)
next
  case (OnAuth url k)
  then show ?case by simp
next
  case (OnAuthFailure url auth p)
  then show ?case by (simp add: onAuthFailure_def)
next
  case (OnAuthSuccess url auth p)
  then show ?case by (simp add: onAuthSuccess_def)
qed

section \<open>Push and the ledger\<close>

text \<open>
  Claim C4, as amended. \<open>push\<close> performs no ledger operation of its own, and push hands
  the engine the adapter that clone uses: the ledger after a push is the ledger before
  it with the \<open>writeFile\<close> calls the engine made during the push recorded in order.
  When the engine makes no \<open>writeFile\<close> call during the push, whichever other
  operations of the adapter it invokes, the ledger is the same before and after. When
  the container is not ready, \<open>push\<close> fails at once and the ledger is the same.
\<close>

theorem gitPush_ledger_frame:
  "let entry = Push (workdir e) remote branch ''https://cors.isomorphic-git.org'';
       after = ledger (snd (gitPush e remote branch w))
   in (ready w \<longrightarrow> after = foldl (ledger_effect e) (ledger w) (engine_calls e entry w))
    \<and> (\<not> ready w \<longrightarrow> after = ledger w)
    \<and> (filter is_writeFile (engine_calls e entry w) = [] \<longrightarrow> after = ledger w)"
proof -
  let ?entry = "Push (workdir e) remote branch ''https://cors.isomorphic-git.org''"
  have a: "ready w \<Longrightarrow> ledger (snd (gitPush e remote branch w)) = ledger (snd (invoke e ?entry w))"
    by (simp add: gitPush_def split_def Let_def split: sum.splits)
  have b: "\<not> ready w \<Longrightarrow> ledger (snd (gitPush e remote branch w)) = ledger w"
    by (simp add: gitPush_def)
  show ?thesis
    unfolding Let_def using a b
    by (cases "ready w") (simp_all add: invoke_ledger foldl_ledger_effect_no_write)
qed

text \<open>
  The theorem for the quiet engine, started with one entry in the ledger: the entry is
  still the only one after the push.
\<close>

theorem gitPush_ledger_frame_witness:
  "filter is_writeFile
     (engine_calls quiet_env (Push (workdir quiet_env) ''origin'' ''main'' ''https://cors.isomorphic-git.org'')
        (probe_world\<lparr>ledger := [(''README.md'', \<lparr>le_data = JStr ''hello'', le_encoding = JStr ''utf8''\<rparr>)]\<rparr>)) = []
   \<and> ledger (snd (gitPush quiet_env ''origin'' ''main''
        (probe_world\<lparr>ledger := [(''README.md'', \<lparr>le_data = JStr ''hello'', le_encoding = JStr ''utf8''\<rparr>)]\<rparr>)))
      = [(''README.md'', \<lparr>le_data = JStr ''hello'', le_encoding = JStr ''utf8''\<rparr>)]"
proof -
  let ?w = "probe_world\<lparr>ledger := [(''README.md'', \<lparr>le_data = JStr ''hello'', le_encoding = JStr ''utf8''\<rparr>)]\<rparr>"
  let ?entry = "Push (workdir quiet_env) ''origin'' ''main'' ''https://cors.isomorphic-git.org''"
  have q: "filter is_writeFile (engine_calls quiet_env ?entry ?w) = []"
    by (simp add: engine_calls_def quiet_env_def quiet_engine_def probe_env_def readFile_def
        await_sb_def Let_def)
  have "ledger (snd (gitPush quiet_env ''origin'' ''main'' ?w)) = ledger ?w"
    by (rule gitPush_ledger_frame [of quiet_env "''origin''" "''main''" ?w, unfolded Let_def,
          THEN conjunct2, THEN conjunct2, THEN mp, OF q])
  then show ?thesis
    using q by simp
qed

text \<open>
  Claim C4 as stated fails for an engine that writes a file during the push (here the
  remote-tracking ref): the ledger is empty before the push and holds the written file
  after it.
\<close>

theorem gitPush_records_writes_counterexample:
  "ledger probe_world = []
   \<and> ledger (snd (gitPush probe_env ''origin'' ''main'' probe_world))
      = [(''.git/refs/remotes/origin/main'', \<lparr>le_data = JStr ''0a1b2c'', le_encoding = JStr ''utf8''\<rparr>)]"
  by (simp add: gitPush_def invoke_def probe_env_def probe_engine_def probe_world_def writeFile_def
      get_prop_def own_value_def await_sb_def obj_assign_def
      relative_nonempty spec_relative_def spec_segments_def)

section \<open>Clone and the ledger\<close>

text \<open>
  Claim C7, as amended. When the container is ready, \<open>clone\<close> empties the ledger before
  it does anything else: its result and final state do not depend on what the ledger
  held before. When the headers are computed, the engine is invoked with them. When the
  engine fails, the caller receives the propagated error and nothing else, no snapshot;
  when it succeeds, the caller receives the working directory and the ledger as the run
  left it, one entry per path. The ledger itself is not cleared on failure: it holds the
  \<open>writeFile\<close> calls the engine made before failing, recorded in order from the empty
  ledger, until the next clone empties it. When the header computation itself raises
  (a cached credential that cannot be converted to text), the caller receives that error,
  the engine is not invoked and the ledger is empty. When the container is not ready,
  \<open>clone\<close> fails at once and touches nothing.
\<close>

theorem gitClone_resets_ledger:
  "(ready w \<longrightarrow>
      gitClone e url w = gitClone e url (w\<lparr>ledger := []\<rparr>)
      \<and> (\<forall>headers. auth_headers e (cookies w) url = Inr headers \<longrightarrow>
           (let entry = Clone (workdir e) url 1 True ''/api/git-proxy'' headers;
                run = invoke e entry (w\<lparr>ledger := []\<rparr>)
            in (\<forall>err. fst run = Inl err \<longrightarrow> gitClone e url w = (Inl err, snd run))
             \<and> (\<forall>v. fst run = Inr v \<longrightarrow>
                   gitClone e url w =
                     (Inr \<lparr>cr_workdir = workdir e, cr_data = ledger (snd run)\<rparr>, snd run))
             \<and> ledger (snd run) =
                 foldl (ledger_effect e) [] (engine_calls e entry (w\<lparr>ledger := []\<rparr>))
             \<and> distinct (map fst (ledger (snd run)))))
      \<and> (\<forall>err. auth_headers e (cookies w) url = Inl err \<longrightarrow>
           gitClone e url w = (Inl err, w\<lparr>ledger := []\<rparr>)))
   \<and> (\<not> ready w \<longrightarrow> gitClone e url w = (Inl (ThrowStr ''Webcontainer not initialized''), w))"
proof -
  have run: "plain_object (ledger (snd (invoke e entry (w\<lparr>ledger := []\<rparr>))))" for entry
    unfolding invoke_def by (rule run_prog_plain) (simp add: plain_object_Nil)
  have d: "distinct (map fst (ledger (snd (invoke e entry (w\<lparr>ledger := []\<rparr>)))))" for entry
    using run [of entry] by (rule plain_object_distinct)
  have s: "snapshot (ledger (snd (invoke e entry (w\<lparr>ledger := []\<rparr>)))) =
           ledger (snd (invoke e entry (w\<lparr>ledger := []\<rparr>)))" for entry
    using run [of entry] by (rule snapshot_plain)
  have r: "ledger (snd (invoke e entry (w\<lparr>ledger := []\<rparr>))) =
           foldl (ledger_effect e) [] (engine_calls e entry (w\<lparr>ledger := []\<rparr>))" for entry
    by (simp add: invoke_ledger)
  show ?thesis
    using d s r by (simp add: gitClone_def Let_def split_def split: sum.splits)
qed

text \<open>
  The theorem in the concrete environment, started with a stale entry in the ledger:
  the clone fails, and the stale entry is gone.
\<close>

theorem gitClone_resets_ledger_witness:
  "ready (probe_world\<lparr>ledger := [(''old.txt'', \<lparr>le_data = JStr ''old'', le_encoding = JUndefined\<rparr>)]\<rparr>)
   \<and> auth_headers probe_env
        (cookies (probe_world\<lparr>ledger := [(''old.txt'', \<lparr>le_data = JStr ''old'', le_encoding = JUndefined\<rparr>)]\<rparr>))
        ''https://example.com/org/repo.git'' = Inr [(''User-Agent'', ''bolt.diy'')]
   \<and> fst (gitClone probe_env ''https://example.com/org/repo.git''
        (probe_world\<lparr>ledger := [(''old.txt'', \<lparr>le_data = JStr ''old'', le_encoding = JUndefined\<rparr>)]\<rparr>))
      = Inl (ThrowStr ''network failure'')
   \<and> map fst (ledger (snd (gitClone probe_env ''https://example.com/org/repo.git''
        (probe_world\<lparr>ledger := [(''old.txt'', \<lparr>le_data = JStr ''old'', le_encoding = JUndefined\<rparr>)]\<rparr>))))
      = [''README.md'']"
proof -
  let ?w = "probe_world\<lparr>ledger := [(''old.txt'', \<lparr>le_data = JStr ''old'', le_encoding = JUndefined\<rparr>)]\<rparr>"
  let ?url = "''https://example.com/org/repo.git''"
  let ?headers = "[(''User-Agent'', ''bolt.diy'')]"
  let ?run = "invoke probe_env (Clone (workdir probe_env) ?url 1 True ''/api/git-proxy'' ?headers)
                (?w\<lparr>ledger := []\<rparr>)"
  have r: "ready ?w"
    by (simp add: probe_world_def)
  have h: "auth_headers probe_env (cookies ?w) ?url = Inr ?headers"
    by (simp add: auth_headers_def lookupSavedPassword_def probe_world_def)
  have f: "fst ?run = Inl (ThrowStr ''network failure'')"
    by (simp add: invoke_def probe_env_def probe_engine_def writeFile_def get_prop_def
        await_sb_def Let_def)
  have l: "map fst (ledger (snd ?run)) = [''README.md'']"
    by (simp add: invoke_def probe_env_def probe_engine_def probe_world_def writeFile_def
        get_prop_def await_sb_def obj_assign_def
        relative_nonempty spec_relative_def spec_segments_def Let_def)
  note t = gitClone_resets_ledger [of ?w probe_env ?url, THEN conjunct1, THEN mp, OF r]
  have "gitClone probe_env ?url ?w = (Inl (ThrowStr ''network failure''), snd ?run)"
    by (rule t [THEN conjunct2, THEN conjunct1, THEN spec, THEN mp, OF h, unfolded Let_def,
          THEN conjunct1, THEN spec, THEN mp, OF f])
  then show ?thesis
    using r h l by simp
qed

text \<open>
  Claim C7 as stated fails in its last part: after a clone whose engine wrote a file and
  then failed, the ledger holds the entry of that file.
\<close>

theorem gitClone_failure_keeps_entries_counterexample:
  "fst (gitClone probe_env ''https://example.com/org/repo.git'' probe_world) = Inl (ThrowStr ''network failure'')
   \<and> ledger (snd (gitClone probe_env ''https://example.com/org/repo.git'' probe_world))
      = [(''README.md'', \<lparr>le_data = JStr ''hello'', le_encoding = JStr ''utf8''\<rparr>)]"
proof -
  have h: "auth_headers probe_env (\<lambda>x. None) ''https://example.com/org/repo.git''
            = Inr [(''User-Agent'', ''bolt.diy'')]"
    by (simp add: auth_headers_def lookupSavedPassword_def)
  have w: "workdir probe_env = ''/home/project''" "engine probe_env = probe_engine"
    "sb_writeFile probe_env = (\<lambda>p d opts s. (Inr JUndefined, s))"
    by (simp_all add: probe_env_def)
  show ?thesis
    by (simp add: gitClone_def probe_world_def h)
       (simp add: invoke_def w probe_engine_def writeFile_def
          get_prop_def own_value_def await_sb_def obj_assign_def
          relative_nonempty spec_relative_def spec_segments_def Let_def)
qed

section \<open>Pull without a configured remote\<close>

text \<open>
  Claim C8. With the container ready, when reading \<open>remote.origin.url\<close> from the local
  configuration gives \<open>undefined\<close> (or any other falsy value), \<open>pull\<close> fails with the
  string \<open>No remote repository found\<close>; the state is the one the configuration read
  left, and the only entry point of the engine invoked is that read: the engine's pull,
  and with it every network call, is never reached. When the container is not ready,
  \<open>pull\<close> fails before the configuration is read.
\<close>

theorem gitPull_without_remote:
  "let entry = GetConfig (workdir e) ''remote.origin.url'';
       cfg = invoke e entry w
   in (ready w \<longrightarrow>
         (\<forall>v. fst cfg = Inr v \<longrightarrow> \<not> js_truthy v \<longrightarrow>
            gitPull e w = (Inl (ThrowStr ''No remote repository found''), snd cfg)
            \<and> invoked (snd (gitPull e w)) = invoked w @ [entry]))
    \<and> (\<not> ready w \<longrightarrow> gitPull e w = (Inl (ThrowStr ''Webcontainer not initialized''), w))"
proof -
  have "invoked (snd (invoke e (GetConfig (workdir e) ''remote.origin.url'') w)) =
        invoked w @ [GetConfig (workdir e) ''remote.origin.url'']"
    by (simp add: invoke_def run_prog_invoked)
  then show ?thesis
    by (simp add: gitPull_def Let_def split_def split: sum.splits)
qed

text \<open>The theorem in the concrete environment, whose configuration has no remote.\<close>

theorem gitPull_without_remote_witness:
  "ready probe_world
   \<and> fst (invoke probe_env (GetConfig (workdir probe_env) ''remote.origin.url'') probe_world) = Inr JUndefined
   \<and> \<not> js_truthy JUndefined
   \<and> fst (gitPull probe_env probe_world) = Inl (ThrowStr ''No remote repository found'')
   \<and> invoked (snd (gitPull probe_env probe_world)) = [GetConfig ''/home/project'' ''remote.origin.url'']"
  using gitPull_without_remote [of probe_env probe_world]
  by (simp add: invoke_def probe_env_def probe_engine_def probe_world_def Let_def)

section \<open>Credential lookup and the \<open>onAuth\<close> hook\<close>

lemma invoke_invoked: "invoked (snd (invoke e entry w)) = invoked w @ [entry]"
  by (simp add: invoke_def run_prog_invoked)

lemma gitClone_invoked:
  "ready w \<Longrightarrow> auth_headers e (cookies w) url = Inr headers \<Longrightarrow>
   invoked (snd (gitClone e url w)) =
     invoked w @ [Clone (workdir e) url 1 True ''/api/git-proxy'' headers]"
  by (simp add: gitClone_def Let_def split_def invoke_invoked split: sum.splits)

lemma lookup_shape:
  "lookupSavedPassword e jar url = JNull
   \<or> (\<exists>u p. lookupSavedPassword e jar url = JObj [(''username'', u), (''password'', p)])"
  by (simp add: lookupSavedPassword_def Let_def split: option.splits sum.splits)

text \<open>
  Claim C9, as amended. When the cookie of the URL's host holds a non-empty text that
  parses as any JSON value other than \<open>null\<close> (an object, an array, a number, a string
  or a boolean), the lookup does not return \<open>null\<close>: it returns an object with the
  properties \<open>username\<close> and \<open>password\<close>, each \<open>undefined\<close> when the parsed value
  lacks the key. That object is truthy: \<open>onAuth\<close> returns it without asking the user,
  and the eager header computation treats it as a found credential. When both
  properties convert to text, it adds an \<open>Authorization\<close> header built from them, which
  \<open>clone\<close> passes to the engine; when one of them does not (an object with a
  \<open>toString\<close> property of its own), the header computation raises a TypeError. In no
  case does it return the headers without authorization, as it does when nothing is
  found.
\<close>

theorem lookup_json_without_keys:
  assumes "jar (''git:'' @ js_text (url_domain url)) = Some raw"
    and "raw \<noteq> []"
    and "json_parse e raw = Inr v"
    and "v \<noteq> JNull" and "v \<noteq> JUndefined"
  shows "let username = own_value ''username'' v;
             password = own_value ''password'' v;
             found = JObj [(''username'', username), (''password'', password)];
             headers = [(''User-Agent'', ''bolt.diy''),
                        (''Authorization'',
                         ''Basic '' @ base64 e (js_text username @ '':'' @ js_text password))]
         in lookupSavedPassword e jar url = found
          \<and> lookupSavedPassword e jar url \<noteq> JNull
          \<and> (''username'' \<notin> fst ` set (own_props v) \<longrightarrow> username = JUndefined)
          \<and> (''password'' \<notin> fst ` set (own_props v) \<longrightarrow> password = JUndefined)
          \<and> onAuth e (w\<lparr>cookies := jar\<rparr>) url = found
          \<and> auth_headers e jar url \<noteq> Inr [(''User-Agent'', ''bolt.diy'')]
          \<and> (js_stringable username \<and> js_stringable password \<longrightarrow>
                auth_headers e jar url = Inr headers
                \<and> (ready w \<longrightarrow>
                     invoked (snd (gitClone e url (w\<lparr>cookies := jar\<rparr>))) =
                       invoked w @ [Clone (workdir e) url 1 True ''/api/git-proxy'' headers]))
          \<and> (\<not> js_stringable username \<or> \<not> js_stringable password \<longrightarrow>
                auth_headers e jar url =
                  Inl (ThrowErr (new_TypeError ''Cannot convert object to primitive value'')))"
proof -
  let ?u = "own_value ''username'' v"
  let ?p = "own_value ''password'' v"
  let ?headers = "[(''User-Agent'', ''bolt.diy''),
                   (''Authorization'', ''Basic '' @ base64 e (js_text ?u @ '':'' @ js_text ?p))]"
  have l: "lookupSavedPassword e jar url = JObj [(''username'', ?u), (''password'', ?p)]"
    using assms by (simp add: lookupSavedPassword_def get_prop_def Let_def)
  have au: "obj_assign ''Authorization'' x [(''User-Agent'', ''bolt.diy'')] =
            [(''User-Agent'', ''bolt.diy''), (''Authorization'', x)]" for x :: string
    by (simp add: obj_assign_def key_rank_def array_index_def is_digit_def)
  have h: "auth_headers e jar url =
      (if js_stringable ?u \<and> js_stringable ?p then Inr ?headers
       else Inl (ThrowErr (new_TypeError ''Cannot convert object to primitive value'')))"
    by (simp add: l auth_headers_def own_value_def js_toString_def au)
  have m: "''username'' \<notin> fst ` set (own_props v) \<Longrightarrow> ?u = JUndefined"
      "''password'' \<notin> fst ` set (own_props v) \<Longrightarrow> ?p = JUndefined"
    by (simp_all add: own_value_def map_of_eq_None_iff [THEN iffD2])
  have g: "ready w \<Longrightarrow> auth_headers e jar url = Inr ?headers \<Longrightarrow>
      invoked (snd (gitClone e url (w\<lparr>cookies := jar\<rparr>))) =
      invoked w @ [Clone (workdir e) url 1 True ''/api/git-proxy'' ?headers]"
    using gitClone_invoked [of "w\<lparr>cookies := jar\<rparr>" e url ?headers] by simp
  show ?thesis
    unfolding Let_def
    apply (intro conjI impI)
    subgoal by (rule l)
    subgoal by (simp add: l)
    subgoal by (rule m)
    subgoal by (rule m)
    subgoal by (simp add: l onAuth_def)
    subgoal by (simp add: h)
    subgoal by (simp add: h)
    subgoal using g by (simp add: h)
    subgoal by (auto simp: h)
    done
qed

text \<open>
  The theorem for the cookie text \<open>{}\<close>: both properties are \<open>undefined\<close>, and the
  header is computed from the text \<open>undefined:undefined\<close>.
\<close>

theorem lookup_json_without_keys_witness:
  "[''git:example.com'' \<mapsto> ''{}''] (''git:'' @ js_text (url_domain ''https://example.com/org/repo.git'')) = Some ''{}''
   \<and> ''{}'' \<noteq> []
   \<and> json_parse probe_env ''{}'' = Inr (JObj [])
   \<and> JObj [] \<noteq> JNull \<and> JObj [] \<noteq> JUndefined
   \<and> ready probe_world
   \<and> lookupSavedPassword probe_env [''git:example.com'' \<mapsto> ''{}''] ''https://example.com/org/repo.git''
       = JObj [(''username'', JUndefined), (''password'', JUndefined)]
   \<and> onAuth probe_env (probe_world\<lparr>cookies := [''git:example.com'' \<mapsto> ''{}'']\<rparr>) ''https://example.com/org/repo.git''
       = JObj [(''username'', JUndefined), (''password'', JUndefined)]
   \<and> auth_headers probe_env [''git:example.com'' \<mapsto> ''{}''] ''https://example.com/org/repo.git''
       = Inr [(''User-Agent'', ''bolt.diy''), (''Authorization'', ''Basic base64:undefined:undefined'')]
   \<and> invoked (snd (gitClone probe_env ''https://example.com/org/repo.git''
                      (probe_world\<lparr>cookies := [''git:example.com'' \<mapsto> ''{}'']\<rparr>)))
       = [Clone ''/home/project'' ''https://example.com/org/repo.git'' 1 True ''/api/git-proxy''
            [(''User-Agent'', ''bolt.diy''), (''Authorization'', ''Basic base64:undefined:undefined'')]]"
proof -
  have dom: "js_text (url_domain ''https://example.com/org/repo.git'') = ''example.com''"
    by (simp add: url_domain_def)
  have parse: "json_parse probe_env ''{}'' = Inr (JObj [])"
    by (simp add: probe_env_def probe_json_parse_def)
  have b: "base64 probe_env = (\<lambda>s. ''base64:'' @ s)" "workdir probe_env = ''/home/project''"
    by (simp_all add: probe_env_def)
  have r: "ready probe_world" "invoked probe_world = []"
    by (simp_all add: probe_world_def)
  show ?thesis
    using lookup_json_without_keys [of "[''git:example.com'' \<mapsto> ''{}'']" "''https://example.com/org/repo.git''" "''{}''" probe_env "JObj []" probe_world]
    by (simp add: dom parse b r Let_def own_value_def)
qed

text \<open>
  Claim C9 as stated fails for the cookie text \<open>null\<close>, which is valid JSON and lacks
  both keys: destructuring \<open>null\<close> raises, the \<open>catch\<close> block answers \<open>null\<close>, and the
  header computation returns the headers without authorization.
\<close>

theorem lookup_json_null_counterexample:
  "[''git:example.com'' \<mapsto> ''null''] (''git:'' @ js_text (url_domain ''https://example.com/org/repo.git'')) = Some ''null''
   \<and> json_parse probe_env ''null'' = Inr JNull
   \<and> lookupSavedPassword probe_env [''git:example.com'' \<mapsto> ''null''] ''https://example.com/org/repo.git'' = JNull
   \<and> auth_headers probe_env [''git:example.com'' \<mapsto> ''null''] ''https://example.com/org/repo.git''
       = Inr [(''User-Agent'', ''bolt.diy'')]"
proof -
  have dom: "js_text (url_domain ''https://example.com/org/repo.git'') = ''example.com''"
    by (simp add: url_domain_def)
  have parse: "json_parse probe_env ''null'' = Inr JNull"
    by (simp add: probe_env_def probe_json_parse_def)
  have l: "lookupSavedPassword probe_env [''git:example.com'' \<mapsto> ''null''] ''https://example.com/org/repo.git'' = JNull"
    by (simp add: lookupSavedPassword_def dom parse get_prop_def Let_def)
  show ?thesis
    by (simp add: dom parse l auth_headers_def)
qed

text \<open>
  Claim C10. \<open>onAuth\<close> returns the cancellation object exactly when no cached credential
  is found and the user declines the confirmation. When no cached credential is found and
  the user confirms, it returns an object whose \<open>username\<close> and \<open>password\<close> are whatever
  the two prompts returned, \<open>null\<close> for a cancelled prompt and the empty string for an
  empty answer included. A cached credential is returned as it is.
\<close>

theorem onAuth_cancel_only_when_declined:
  "let cached = lookupSavedPassword e (cookies w) url;
       confirmed = user_confirm e ''This repo is password protected. Ready to enter a username & password?''
   in (onAuth e w url = JObj [(''cancel'', JBool True)] \<longleftrightarrow> \<not> js_truthy cached \<and> \<not> confirmed)
    \<and> (\<not> js_truthy cached \<and> confirmed \<longrightarrow>
          onAuth e w url = JObj [(''username'', user_prompt e ''Enter username''),
                                 (''password'', user_prompt e ''Enter password'')])
    \<and> (js_truthy cached \<longrightarrow> onAuth e w url = cached)"
  using lookup_shape [of e "cookies w" url]
  by (auto simp: onAuth_def Let_def)

text \<open>
  The theorem for a user who confirms and then cancels both prompts: the result carries
  \<open>null\<close> twice and is not the cancellation object.
\<close>

theorem onAuth_cancel_only_when_declined_witness:
  "\<not> js_truthy (lookupSavedPassword probe_env (cookies probe_world) ''https://example.com/org/repo.git'')
   \<and> user_confirm probe_env ''This repo is password protected. Ready to enter a username & password?''
   \<and> onAuth probe_env probe_world ''https://example.com/org/repo.git''
        = JObj [(''username'', JNull), (''password'', JNull)]
   \<and> onAuth probe_env probe_world ''https://example.com/org/repo.git'' \<noteq> JObj [(''cancel'', JBool True)]"
proof -
  have c: "lookupSavedPassword probe_env (cookies probe_world) ''https://example.com/org/repo.git'' = JNull"
    by (simp add: lookupSavedPassword_def probe_world_def)
  have u: "user_confirm probe_env = (\<lambda>q. True)" "user_prompt probe_env = (\<lambda>q. JNull)"
    by (simp_all add: probe_env_def)
  show ?thesis
    using onAuth_cancel_only_when_declined [of probe_env probe_world "''https://example.com/org/repo.git''"]
    by (simp add: c u Let_def)
qed

end
